theory Spec2Isabelle
  imports Main "HOL-Library.Word" "HOL-Library.AList"
begin

unbundle bit_operations_syntax

section \<open>Bytes, CRC-32 and the struct formats of the segment log\<close>

type_synonym byte = "8 word"
type_synonym bytes = "byte list"

text \<open>Module constants of \<^verbatim>\<open>repository.py\<close>.\<close>

definition MAX_OBJECT_SIZE :: nat where
  "MAX_OBJECT_SIZE = 20 * 1024 * 1024"

definition MAGIC :: bytes where
  "MAGIC = [0x42, 0x4F, 0x52, 0x47, 0x5F, 0x53, 0x45, 0x47]"

definition MAGIC_LEN :: nat where
  "MAGIC_LEN = length MAGIC"

definition TAG_PUT :: byte where "TAG_PUT = 0"
definition TAG_DELETE :: byte where "TAG_DELETE = 1"
definition TAG_COMMIT :: byte where "TAG_COMMIT = 2"

text \<open>
  \<^verbatim>\<open>zlib.crc32(data, value)\<close>: the reflected CRC-32 with polynomial \<open>0xEDB88320\<close>, the
  running value complemented on entry and on exit. One call of \<open>crc_shift\<close> consumes one bit.
\<close>

definition crc_shift :: "32 word \<Rightarrow> 32 word" where
  "crc_shift c = (if bit c 0 then drop_bit 1 c XOR 0xEDB88320 else drop_bit 1 c)"

definition crc_byte :: "32 word \<Rightarrow> byte \<Rightarrow> 32 word" where
  "crc_byte c b =
     crc_shift (crc_shift (crc_shift (crc_shift
       (crc_shift (crc_shift (crc_shift (crc_shift (c XOR ucast b))))))))"

definition crc32 :: "bytes \<Rightarrow> 32 word \<Rightarrow> 32 word" where
  "crc32 d v = NOT (foldl crc_byte (NOT v) d)"

text \<open>\<^verbatim>\<open>struct.Struct('<I')\<close>: an unsigned 32-bit integer, least significant byte first.\<close>

definition pack_u32 :: "32 word \<Rightarrow> bytes" where
  "pack_u32 w = [ucast w, ucast (drop_bit 8 w), ucast (drop_bit 16 w), ucast (drop_bit 24 w)]"

definition unpack_u32 :: "bytes \<Rightarrow> 32 word" where
  "unpack_u32 bs =
     (case bs of
        [b0, b1, b2, b3] \<Rightarrow>
          ucast b0 OR push_bit 8 (ucast b1) OR push_bit 16 (ucast b2) OR push_bit 24 (ucast b3)
      | _ \<Rightarrow> 0)"

datatype header_format = HeaderFmt | PutHeaderFmt

fun fmt_size :: "header_format \<Rightarrow> nat" where
  "fmt_size HeaderFmt = 9"
| "fmt_size PutHeaderFmt = 41"

section \<open>Errors, files and the state of an open repository\<close>

datatype integrity =
    InvalidMagic | InvalidHeader | InvalidSize | DataShortRead | ChecksumMismatch
  | KeyShortRead | BadTag | WrongId

datatype error =
    IntegrityError integrity nat nat
  | CheckNeeded | ObjectNotFound | SegmentFull
  | StructError | KeyError | AttributeError | AssertionError | ValueError | TypeError
  | RuntimeError | InternalOSError | FileNotFoundError | LockError

type_synonym nsindex = "(bytes \<times> (nat \<times> nat)) list"
type_synonym counts = "(nat \<times> int) list"

text \<open>
  The hints file as \<^verbatim>\<open>msgpack\<close> decodes it: version 1 holds the live counts and the list of
  segments whose sparseness must be rebuilt, version 2 holds the two maps, any other version
  is rejected.
\<close>

datatype hints = HintsV1 counts "nat list" | HintsV2 counts counts | HintsOther int

text \<open>
  Modelled from the spec: \<^verbatim>\<open>NSIndex.read\<close>/\<^verbatim>\<open>NSIndex.write\<close> (\<^verbatim>\<open>borg.hashindex\<close>, the hash
  index, is an external collaborator that is not part of the source given). A file written by
  \<^verbatim>\<open>NSIndex.write\<close> is non-empty and reads back as the same mapping; \<^verbatim>\<open>NSIndex.read\<close> fails on
  every other file. The same holds for a hints file and \<^verbatim>\<open>msgpack\<close>.
\<close>

datatype fsfile = Raw bytes | IndexFile nsindex | HintsFile hints

fun st_size_nonzero :: "fsfile \<Rightarrow> bool" where
  "st_size_nonzero (Raw bs) = (bs \<noteq> [])"
| "st_size_nonzero (IndexFile _) = True"
| "st_size_nonzero (HintsFile _) = True"

datatype fsop =
    OpWrite string | OpFsync string | OpRename string string | OpUnlink string | OpAppend string

text \<open>
  One record holds the \<^verbatim>\<open>Repository\<close> object, its \<^verbatim>\<open>LoggedIO\<close> (fields \<open>io_\<close>) and the
  repository directory. \<open>top\<close> are the files directly under the repository path, \<open>top_trace\<close>
  the operations done on them, oldest first. \<open>data\<close> maps a segment number to the content of
  its file \<^verbatim>\<open>data/<n // segments_per_dir>/<n>\<close>, \<open>beforerecover\<close> to that of
  \<^verbatim>\<open><n>.beforerecover\<close>. \<open>io_write_fd\<close> is the segment whose file the writer has open.
  \<open>segments\<close> and \<open>compact\<close> are \<open>None\<close> while the attribute does not exist yet.
  Reads go to the current content of a file by absolute offset (the cache of read handles
  is not modelled), and written bytes are visible at once.
\<close>

record repo =
  top :: "(string \<times> fsfile) list"
  top_trace :: "fsop list"
  utcnow :: string
  data :: "(nat \<times> bytes) list"
  beforerecover :: "(nat \<times> bytes) list"
  io_segment :: nat
  io_offset :: nat
  io_limit :: int
  io_write_fd :: "nat option"
  index :: "nsindex option"
  segments :: "counts option"
  compact :: "counts option"
  active_txn :: bool
  append_only :: bool
  max_segment_size :: int
  lock_upgradable :: bool

text \<open>
  The outcome of a call: a value and the state after it, an exception and the state at the
  raise, or \<open>OutOfFuel\<close> for the mutually recursive recovery functions below.
\<close>

datatype 'a res = Ok 'a repo | Raise error repo | OutOfFuel

definition seq :: "(repo \<Rightarrow> 'a res) \<Rightarrow> ('a \<Rightarrow> repo \<Rightarrow> 'b res) \<Rightarrow> repo \<Rightarrow> 'b res" where
  "seq m k st = (case m st of Ok a st' \<Rightarrow> k a st' | Raise e st' \<Rightarrow> Raise e st' | OutOfFuel \<Rightarrow> OutOfFuel)"

section \<open>LoggedIO\<close>

definition header_no_crc_pack :: "nat \<Rightarrow> byte \<Rightarrow> error + bytes" where
  "header_no_crc_pack sz tag =
     (if sz < 2 ^ 32 then Inr (pack_u32 (of_nat sz) @ [tag]) else Inl StructError)"

text \<open>\<^verbatim>\<open>LoggedIO.COMMIT\<close>, the canonical COMMIT frame.\<close>

definition commit_hdr :: bytes where
  "commit_hdr = pack_u32 9 @ [TAG_COMMIT]"

definition COMMIT :: bytes where
  "COMMIT = pack_u32 (crc32 commit_hdr 0) @ commit_hdr"

definition segment_iterator :: "repo \<Rightarrow> nat list" where
  "segment_iterator st = sort (remdups (map fst (data st)))"

definition get_latest_segment :: "repo \<Rightarrow> nat option" where
  "get_latest_segment st =
     (case rev (segment_iterator st) of [] \<Rightarrow> None | segment # _ \<Rightarrow> Some segment)"

definition segment_exists :: "nat \<Rightarrow> repo \<Rightarrow> bool" where
  "segment_exists segment st = (map_of (data st) segment \<noteq> None)"

definition segment_size :: "nat \<Rightarrow> repo \<Rightarrow> nat res" where
  "segment_size segment st =
     (case map_of (data st) segment of
        None \<Rightarrow> Raise FileNotFoundError st
      | Some f \<Rightarrow> Ok (length f) st)"

definition delete_segment :: "nat \<Rightarrow> repo \<Rightarrow> repo" where
  "delete_segment segment st = st\<lparr>data := AList.delete segment (data st)\<rparr>"

fun cleanup_loop :: "nat \<Rightarrow> nat list \<Rightarrow> repo \<Rightarrow> repo" where
  "cleanup_loop transaction_id [] st = st"
| "cleanup_loop transaction_id (segment # rest) st =
     (if segment > transaction_id
      then cleanup_loop transaction_id rest (st\<lparr>data := AList.delete segment (data st)\<rparr>)
      else st)"

definition cleanup :: "nat \<Rightarrow> repo \<Rightarrow> repo" where
  "cleanup transaction_id st =
     (let st1 = st\<lparr>io_segment := transaction_id + 1\<rparr>
      in cleanup_loop transaction_id (rev (segment_iterator st1)) st1)"

definition close_segment :: "repo \<Rightarrow> repo" where
  "close_segment st =
     (case io_write_fd st of
        None \<Rightarrow> st
      | Some _ \<Rightarrow> st\<lparr>io_segment := io_segment st + 1, io_offset := 0, io_write_fd := None\<rparr>)"

text \<open>
  \<^verbatim>\<open>get_write_fd\<close> returns the open write handle, here the number of the segment file it
  writes to. Opening creates the file (truncating one of that name) and writes the magic.
\<close>

definition open_write_fd :: "repo \<Rightarrow> nat res" where
  "open_write_fd st =
     (case io_write_fd st of
        Some fd \<Rightarrow> Ok fd st
      | None \<Rightarrow>
          Ok (io_segment st)
             (st\<lparr>data := AList.update (io_segment st) MAGIC (data st),
                 io_write_fd := Some (io_segment st),
                 io_offset := MAGIC_LEN\<rparr>))"

definition get_write_fd :: "bool \<Rightarrow> bool \<Rightarrow> repo \<Rightarrow> nat res" where
  "get_write_fd no_new raise_full st =
     (if \<not> no_new \<and> io_offset st \<noteq> 0 \<and> int (io_offset st) > io_limit st
      then (if raise_full then Raise SegmentFull st else open_write_fd (close_segment st))
      else open_write_fd st)"

text \<open>\<^verbatim>\<open>fd.write\<close>: append to the file the handle was opened on.\<close>

definition fd_write :: "nat \<Rightarrow> bytes \<Rightarrow> repo \<Rightarrow> repo" where
  "fd_write fd bs st =
     (case map_of (data st) fd of
        None \<Rightarrow> st
      | Some f \<Rightarrow> st\<lparr>data := AList.update fd (f @ bs) (data st)\<rparr>)"

definition put_frame :: "bytes \<Rightarrow> bytes \<Rightarrow> bytes \<Rightarrow> bytes" where
  "put_frame header key dat =
     pack_u32 (crc32 dat (crc32 key (crc32 header 0))) @ header @ key @ dat"

definition write_put :: "bytes \<Rightarrow> bytes \<Rightarrow> bool \<Rightarrow> repo \<Rightarrow> (nat \<times> nat) res" where
  "write_put key dat raise_full =
     seq (get_write_fd False raise_full) (\<lambda>fd st.
       let sz = length dat + fmt_size PutHeaderFmt;
           offset = io_offset st
       in case header_no_crc_pack sz TAG_PUT of
            Inl e \<Rightarrow> Raise e st
          | Inr header \<Rightarrow>
              let st1 = fd_write fd (put_frame header key dat) st;
                  st2 = st1\<lparr>io_offset := io_offset st1 + sz\<rparr>
              in Ok (io_segment st2, offset) st2)"

definition delete_frame :: "bytes \<Rightarrow> bytes \<Rightarrow> bytes" where
  "delete_frame header key = pack_u32 (crc32 key (crc32 header 0)) @ header @ key"

definition write_delete :: "bytes \<Rightarrow> bool \<Rightarrow> repo \<Rightarrow> (nat \<times> nat) res" where
  "write_delete key raise_full =
     seq (get_write_fd False raise_full) (\<lambda>fd st.
       case header_no_crc_pack (fmt_size PutHeaderFmt) TAG_DELETE of
         Inl e \<Rightarrow> Raise e st
       | Inr header \<Rightarrow>
           let st1 = fd_write fd (delete_frame header key) st;
               st2 = st1\<lparr>io_offset := io_offset st1 + fmt_size PutHeaderFmt\<rparr>
           in Ok (io_segment st2, fmt_size PutHeaderFmt) st2)"

definition write_commit :: "repo \<Rightarrow> unit res" where
  "write_commit st =
     seq (get_write_fd False False) (\<lambda>fd st1.
       case header_no_crc_pack (fmt_size HeaderFmt) TAG_COMMIT of
         Inl e \<Rightarrow> Raise e st1
       | Inr header \<Rightarrow>
           Ok () (close_segment (fd_write fd (pack_u32 (crc32 header 0) @ header) st1)))
       (close_segment st)"

text \<open>
  A frame as \<^verbatim>\<open>iter_objects\<close> yields it: tag, key (\<open>None\<close> for a tag without key), offset, and
  the data or the size.
\<close>

datatype payload = Data bytes | Size nat | NoData

type_synonym entry = "byte \<times> bytes option \<times> nat \<times> payload"

text \<open>
  \<^verbatim>\<open>LoggedIO._read\<close>, on the content \<open>f\<close> of the file the handle reads, the handle standing
  right after the header read at \<open>offset\<close>. It returns size, tag, key and data. A seek past
  the end of a file succeeds, so the short-seek error of the source has no branch here.
\<close>

definition read_entry ::
  "bytes \<Rightarrow> header_format \<Rightarrow> bytes \<Rightarrow> nat \<Rightarrow> nat \<Rightarrow> byte list \<Rightarrow> bool \<Rightarrow>
   error + (nat \<times> byte \<times> bytes option \<times> bytes option)" where
  "read_entry f fmt header segment offset acceptable_tags read_data =
     (if length header \<noteq> fmt_size fmt then Inl (IntegrityError InvalidHeader segment offset)
      else
        let crc = unpack_u32 (take 4 header);
            sz = unat (unpack_u32 (take 4 (drop 4 header)));
            tag = header ! 8;
            key = (case fmt of PutHeaderFmt \<Rightarrow> Some (take 32 (drop 9 header)) | HeaderFmt \<Rightarrow> None)
        in
        if sz > MAX_OBJECT_SIZE \<or> sz < fmt_size fmt
        then Inl (IntegrityError InvalidSize segment offset)
        else
          let len = sz - fmt_size fmt;
              pos = offset + fmt_size fmt
          in
          if read_data then
            let dat = take len (drop pos f) in
            if length dat \<noteq> len then Inl (IntegrityError DataShortRead segment offset)
            else if crc32 dat (crc32 (drop 4 header) 0) \<noteq> crc
            then Inl (IntegrityError ChecksumMismatch segment offset)
            else
              let (key1, dat1) =
                    (if key = None \<and> (tag = TAG_PUT \<or> tag = TAG_DELETE)
                     then (Some (take 32 dat), drop 32 dat) else (key, dat))
              in if tag \<notin> set acceptable_tags then Inl (IntegrityError BadTag segment offset)
                 else Inr (sz, tag, key1, Some dat1)
          else
            if key = None \<and> (tag = TAG_PUT \<or> tag = TAG_DELETE)
               \<and> length (take 32 (drop pos f)) \<noteq> 32
            then Inl (IntegrityError KeyShortRead segment offset)
            else
              let key1 = (if key = None \<and> (tag = TAG_PUT \<or> tag = TAG_DELETE)
                          then Some (take 32 (drop pos f)) else key)
              in if tag \<notin> set acceptable_tags then Inl (IntegrityError BadTag segment offset)
                 else Inr (sz, tag, key1, None))"

lemma read_entry_size_ge:
  "read_entry f fmt header segment offset tags read_data = Inr (sz, r) \<Longrightarrow> fmt_size fmt \<le> sz"
  by (auto simp: read_entry_def Let_def split: if_splits prod.splits)

text \<open>\<^verbatim>\<open>LoggedIO.read\<close>: the data of the PUT at \<open>offset\<close>, or its size when \<open>read_data\<close> is off.\<close>

definition io_read :: "nat \<Rightarrow> nat \<Rightarrow> bytes \<Rightarrow> bool \<Rightarrow> repo \<Rightarrow> payload res" where
  "io_read segment offset key read_data st =
     (case map_of (data st) segment of
        None \<Rightarrow> Raise FileNotFoundError st
      | Some f \<Rightarrow>
          let header = take (fmt_size PutHeaderFmt) (drop offset f) in
          (case read_entry f PutHeaderFmt header segment offset [TAG_PUT] read_data of
             Inl e \<Rightarrow> Raise e st
           | Inr (sz, tag, key1, dat) \<Rightarrow>
               if Some key \<noteq> key1 then Raise (IntegrityError WrongId segment offset) st
               else (case dat of Some d \<Rightarrow> Ok (Data d) st | None \<Rightarrow> Ok (Size sz) st)))"

text \<open>
  The loop of \<^verbatim>\<open>iter_objects\<close> from \<open>offset\<close> on: the frames it yields, and the
  \<^verbatim>\<open>IntegrityError\<close> that ends the iteration if one does.
\<close>

function iter_loop :: "bytes \<Rightarrow> nat \<Rightarrow> bool \<Rightarrow> bool \<Rightarrow> nat \<Rightarrow> entry list \<times> error option" where
  "iter_loop f segment include_data read_data offset =
     (let header = take (fmt_size HeaderFmt) (drop offset f) in
      if header = [] then ([], None)
      else
        (case read_entry f HeaderFmt header segment offset
                [TAG_PUT, TAG_DELETE, TAG_COMMIT] read_data of
           Inl e \<Rightarrow> ([], Some e)
         | Inr (sz, tag, key, dat) \<Rightarrow>
             let rest = iter_loop f segment include_data read_data (offset + sz);
                 p = (if include_data then (case dat of Some d \<Rightarrow> Data d | None \<Rightarrow> NoData)
                      else Size sz)
             in ((tag, key, offset, p) # fst rest, snd rest)))"
  by pat_completeness auto
termination
proof (relation "measure (\<lambda>(f, segment, include_data, read_data, offset). length f - offset)")
  fix f :: bytes and segment :: nat and include_data read_data :: bool and offset :: nat
    and header r sz y tag z key dat
  assume h: "header = take (fmt_size HeaderFmt) (drop offset f)" "header \<noteq> []"
    and r: "read_entry f HeaderFmt header segment offset [TAG_PUT, TAG_DELETE, TAG_COMMIT] read_data
            = Inr r"
       "(sz, y) = r"
  from r have "fmt_size HeaderFmt \<le> sz"
    using read_entry_size_ge [of f HeaderFmt header segment offset _ read_data sz] by (cases r) auto
  moreover from h have "offset < length f" by (cases "offset < length f") auto
  ultimately show "((f, segment, include_data, read_data, offset + sz),
                    (f, segment, include_data, read_data, offset))
        \<in> measure (\<lambda>(f, segment, include_data, read_data, offset). length f - offset)"
    by simp
qed simp

declare iter_loop.simps [simp del]

definition iter_objects_file :: "bytes \<Rightarrow> nat \<Rightarrow> bool \<Rightarrow> bool \<Rightarrow> entry list \<times> error option" where
  "iter_objects_file f segment include_data read_data =
     (if take MAGIC_LEN f \<noteq> MAGIC then ([], Some (IntegrityError InvalidMagic segment 0))
      else iter_loop f segment include_data read_data MAGIC_LEN)"

definition iter_objects :: "nat \<Rightarrow> bool \<Rightarrow> bool \<Rightarrow> repo \<Rightarrow> entry list \<times> error option" where
  "iter_objects segment include_data read_data st =
     (case map_of (data st) segment of
        None \<Rightarrow> ([], Some FileNotFoundError)
      | Some f \<Rightarrow> iter_objects_file f segment include_data read_data)"

text \<open>The \<^verbatim>\<open>while True\<close> loop of \<^verbatim>\<open>is_committed_segment\<close> over the frames of the iterator.\<close>

fun committed_scan :: "bool \<Rightarrow> entry list \<Rightarrow> error option \<Rightarrow> bool" where
  "committed_scan seen_commit [] None = seen_commit"
| "committed_scan seen_commit [] (Some e) = False"
| "committed_scan seen_commit ((tag, key, offset, p) # rest) err =
     (if tag = TAG_COMMIT then committed_scan True rest err
      else if seen_commit then False
      else committed_scan seen_commit rest err)"

definition is_committed_file :: "bytes \<Rightarrow> nat \<Rightarrow> bool" where
  "is_committed_file f segment =
     (if length f < fmt_size HeaderFmt then False
      else if drop (length f - fmt_size HeaderFmt) f \<noteq> COMMIT then False
      else (case iter_objects_file f segment False True of
              (entries, err) \<Rightarrow> committed_scan False entries err))"

definition is_committed_segment :: "nat \<Rightarrow> repo \<Rightarrow> bool res" where
  "is_committed_segment segment st =
     (case map_of (data st) segment of
        None \<Rightarrow> Raise FileNotFoundError st
      | Some f \<Rightarrow> Ok (is_committed_file f segment) st)"

fun first_committed :: "nat list \<Rightarrow> repo \<Rightarrow> nat option" where
  "first_committed [] st = None"
| "first_committed (segment # rest) st =
     (case is_committed_segment segment st of
        Ok True _ \<Rightarrow> Some segment
      | _ \<Rightarrow> first_committed rest st)"

definition get_segments_transaction_id :: "repo \<Rightarrow> nat option" where
  "get_segments_transaction_id st = first_committed (rev (segment_iterator st)) st"

text \<open>The byte walk of \<^verbatim>\<open>recover_segment\<close> over the remaining bytes: what it writes.\<close>

function recover_walk :: "bytes \<Rightarrow> bytes" where
  "recover_walk d =
     (if length d \<ge> fmt_size HeaderFmt then
        let crc = unpack_u32 (take 4 d);
            sz = unat (unpack_u32 (take 4 (drop 4 d)))
        in
        if sz < fmt_size HeaderFmt \<or> sz > length d then recover_walk (drop 1 d)
        else if crc32 (take (sz - 4) (drop 4 d)) 0 \<noteq> crc then recover_walk (drop 1 d)
        else take sz d @ recover_walk (drop sz d)
      else [])"
  by pat_completeness auto
termination
  by (relation "measure length") auto

declare recover_walk.simps [simp del]

definition recover_segment :: "nat \<Rightarrow> repo \<Rightarrow> unit res" where
  "recover_segment segment st =
     (case map_of (data st) segment of
        None \<Rightarrow> Raise FileNotFoundError st
      | Some d \<Rightarrow>
          Ok () (st\<lparr>beforerecover := AList.update segment d (beforerecover st),
                    data := AList.update segment (MAGIC @ recover_walk d) (data st)\<rparr>))"

section \<open>File names and the repository directory\<close>

definition startswith :: "string \<Rightarrow> string \<Rightarrow> bool" where
  "startswith s p = (take (length p) s = p)"

definition endswith :: "string \<Rightarrow> string \<Rightarrow> bool" where
  "endswith s p = (length p \<le> length s \<and> drop (length s - length p) s = p)"

definition digits :: string where
  "digits = ''0123456789''"

text \<open>\<^verbatim>\<open>str.isdigit\<close> and \<^verbatim>\<open>int\<close>, for names made of ASCII characters.\<close>

definition isdigit :: "string \<Rightarrow> bool" where
  "isdigit s = (s \<noteq> [] \<and> list_all (\<lambda>c. List.member digits c) s)"

text \<open>The value of a decimal digit: its position in \<open>digits\<close>.\<close>

definition digit_val :: "char \<Rightarrow> nat" where
  "digit_val c = length (takeWhile (\<lambda>d. d \<noteq> c) digits)"

definition int_of_str :: "string \<Rightarrow> nat" where
  "int_of_str s = foldl (\<lambda>a c. 10 * a + digit_val c) 0 s"

text \<open>\<^verbatim>\<open>'%d' % n\<close> for a natural number.\<close>

function dec :: "nat \<Rightarrow> string" where
  "dec n = (if n < 10 then [digits ! n] else dec (n div 10) @ [digits ! (n mod 10)])"
  by pat_completeness auto
termination
  by (relation "measure (\<lambda>n. n)") auto

declare dec.simps [simp del]

definition listdir :: "repo \<Rightarrow> string list" where
  "listdir st = remdups (map fst (top st))"

definition top_write :: "string \<Rightarrow> fsfile \<Rightarrow> repo \<Rightarrow> repo" where
  "top_write name f st =
     st\<lparr>top := AList.update name f (top st), top_trace := top_trace st @ [OpWrite name]\<rparr>"

definition top_fsync :: "string \<Rightarrow> repo \<Rightarrow> repo" where
  "top_fsync name st = st\<lparr>top_trace := top_trace st @ [OpFsync name]\<rparr>"

definition top_unlink :: "string \<Rightarrow> repo \<Rightarrow> repo" where
  "top_unlink name st =
     st\<lparr>top := AList.delete name (top st), top_trace := top_trace st @ [OpUnlink name]\<rparr>"

text \<open>\<^verbatim>\<open>os.rename\<close> of a file that exists (both calls of the source rename a file just written).\<close>

definition top_rename :: "string \<Rightarrow> string \<Rightarrow> repo \<Rightarrow> repo" where
  "top_rename src dst st =
     (case map_of (top st) src of
        None \<Rightarrow> st
      | Some f \<Rightarrow>
          st\<lparr>top := AList.update dst f (AList.delete src (top st)),
             top_trace := top_trace st @ [OpRename src dst]\<rparr>)"

definition top_append :: "string \<Rightarrow> string \<Rightarrow> repo \<Rightarrow> repo" where
  "top_append name line st =
     (let old = (case map_of (top st) name of Some (Raw bs) \<Rightarrow> bs | _ \<Rightarrow> [])
      in st\<lparr>top := AList.update name (Raw (old @ map of_char line)) (top st),
            top_trace := top_trace st @ [OpAppend name]\<rparr>)"

section \<open>Repository\<close>

definition get_index_transaction_id :: "repo \<Rightarrow> nat option" where
  "get_index_transaction_id st =
     (let indices =
            sort (map (\<lambda>fn. int_of_str (drop 6 fn))
              (filter (\<lambda>fn. startswith fn ''index.'' \<and> isdigit (drop 6 fn)
                          \<and> (case map_of (top st) fn of Some f \<Rightarrow> st_size_nonzero f
                              | None \<Rightarrow> False))
                 (listdir st)))
      in if indices \<noteq> [] then Some (last indices) else None)"

definition rollback :: "repo \<Rightarrow> repo" where
  "rollback st = st\<lparr>index := None, active_txn := False\<rparr>"

text \<open>The loop of \<^verbatim>\<open>write_index\<close> that removes the old auxiliary files.\<close>

fun remove_old :: "string \<Rightarrow> string list \<Rightarrow> repo \<Rightarrow> repo" where
  "remove_old current [] st = st"
| "remove_old current (name # rest) st =
     (if \<not> (startswith name ''index.'' \<or> startswith name ''hints.'') then remove_old current rest st
      else if endswith name current then remove_old current rest st
      else remove_old current rest (top_unlink name st))"

definition write_index :: "repo \<Rightarrow> unit res" where
  "write_index st =
     (case (segments st, compact st) of
        (Some sg, Some cp) \<Rightarrow>
          (case get_segments_transaction_id st of
             None \<Rightarrow> Raise TypeError st
           | Some transaction_id \<Rightarrow>
               let hints_file = ''hints.'' @ dec transaction_id;
                   st1 = top_write (hints_file @ ''.tmp'') (HintsFile (HintsV2 sg cp)) st;
                   st2 = top_fsync (hints_file @ ''.tmp'') st1;
                   st3 = top_rename (hints_file @ ''.tmp'') hints_file st2
               in (case index st3 of
                     None \<Rightarrow> Raise AttributeError st3
                   | Some idx \<Rightarrow>
                       let st4 = top_write ''index.tmp'' (IndexFile idx) st3;
                           st5 = top_rename ''index.tmp'' (''index.'' @ dec transaction_id) st4;
                           st6 = (if append_only st5
                                  then top_append ''transactions''
                                         (''transaction '' @ dec transaction_id @ '', UTC time ''
                                            @ utcnow st5 @ [CHR 0x0A]) st5
                                  else st5);
                           current = ''.'' @ dec transaction_id;
                           st7 = remove_old current (listdir st6) st6
                       in Ok () (st7\<lparr>index := None\<rparr>)))
      | _ \<Rightarrow> Raise AttributeError st)"

text \<open>Accesses to \<^verbatim>\<open>self.segments\<close> (a dict) and \<^verbatim>\<open>self.compact\<close> (a defaultdict of int).\<close>

definition seg_get :: "nat \<Rightarrow> repo \<Rightarrow> int res" where
  "seg_get segment st =
     (case segments st of
        None \<Rightarrow> Raise AttributeError st
      | Some sg \<Rightarrow> (case map_of sg segment of None \<Rightarrow> Raise KeyError st | Some c \<Rightarrow> Ok c st))"

definition seg_set :: "nat \<Rightarrow> int \<Rightarrow> repo \<Rightarrow> unit res" where
  "seg_set segment c st =
     (case segments st of
        None \<Rightarrow> Raise AttributeError st
      | Some sg \<Rightarrow> Ok () (st\<lparr>segments := Some (AList.update segment c sg)\<rparr>))"

definition seg_add :: "nat \<Rightarrow> int \<Rightarrow> repo \<Rightarrow> unit res" where
  "seg_add segment n = seq (seg_get segment) (\<lambda>c. seg_set segment (c + n))"

definition seg_setdefault :: "nat \<Rightarrow> repo \<Rightarrow> unit res" where
  "seg_setdefault segment st =
     (case segments st of
        None \<Rightarrow> Raise AttributeError st
      | Some sg \<Rightarrow>
          (case map_of sg segment of
             None \<Rightarrow> Ok () (st\<lparr>segments := Some (AList.update segment 0 sg)\<rparr>)
           | Some _ \<Rightarrow> Ok () st))"

definition compact_add :: "nat \<Rightarrow> int \<Rightarrow> repo \<Rightarrow> unit res" where
  "compact_add segment n st =
     (case compact st of
        None \<Rightarrow> Raise AttributeError st
      | Some cp \<Rightarrow>
          Ok () (st\<lparr>compact := Some (AList.update segment
                     ((case map_of cp segment of None \<Rightarrow> 0 | Some c \<Rightarrow> c) + n) cp)\<rparr>))"

definition compact_del :: "nat \<Rightarrow> repo \<Rightarrow> unit res" where
  "compact_del segment st =
     (case compact st of
        None \<Rightarrow> Raise AttributeError st
      | Some cp \<Rightarrow>
          (case map_of cp segment of
             None \<Rightarrow> Raise KeyError st
           | Some _ \<Rightarrow> Ok () (st\<lparr>compact := Some (AList.delete segment cp)\<rparr>)))"

definition index_set :: "bytes \<Rightarrow> nat \<times> nat \<Rightarrow> repo \<Rightarrow> unit res" where
  "index_set key v st =
     (case index st of
        None \<Rightarrow> Raise TypeError st
      | Some idx \<Rightarrow> Ok () (st\<lparr>index := Some (AList.update key v idx)\<rparr>))"

definition payload_size :: "payload \<Rightarrow> repo \<Rightarrow> nat res" where
  "payload_size p st = (case p of Size n \<Rightarrow> Ok n st | _ \<Rightarrow> Raise TypeError st)"

definition on_segment_full :: "(repo \<Rightarrow> 'a res) \<Rightarrow> (repo \<Rightarrow> 'a res) \<Rightarrow> repo \<Rightarrow> 'a res" where
  "on_segment_full m h st = (case m st of Raise SegmentFull st1 \<Rightarrow> h st1 | r \<Rightarrow> r)"

subsection \<open>Compaction\<close>

fun xfer_loop :: "nat list \<Rightarrow> repo \<Rightarrow> unit res" where
  "xfer_loop [] st = Ok () st"
| "xfer_loop (segment # rest) st =
     (case segments st of
        None \<Rightarrow> Raise AttributeError st
      | Some sg \<Rightarrow>
          (case map_of sg segment of
             None \<Rightarrow> Raise KeyError st
           | Some c \<Rightarrow>
               let st1 = st\<lparr>segments := Some (AList.delete segment sg)\<rparr> in
               if c \<noteq> 0 then Raise AssertionError st1
               else seq (compact_del segment) (\<lambda>_. xfer_loop rest) (delete_segment segment st1)))"

definition complete_xfer :: "nat list \<Rightarrow> repo \<Rightarrow> unit res" where
  "complete_xfer unused = seq write_commit (\<lambda>_. xfer_loop unused)"

text \<open>
  One frame of the segment under compaction; the result is the list \<open>unused\<close> afterwards
  (\<^verbatim>\<open>complete_xfer\<close> empties it).
\<close>

definition compact_entry ::
  "bool \<Rightarrow> nat option \<Rightarrow> nat \<Rightarrow> entry \<Rightarrow> nat list \<Rightarrow> repo \<Rightarrow> nat list res" where
  "compact_entry save_space index_transaction_id segment e unused st =
     (case e of (tag, key, offset, p) \<Rightarrow>
        if tag = TAG_PUT then
          (case index st of
             None \<Rightarrow> Raise AttributeError st
           | Some idx \<Rightarrow>
               (case (key, p) of
                  (Some k, Data dat) \<Rightarrow>
                    if map_of idx k = Some (segment, offset) then
                      seq (on_segment_full
                             (seq (write_put k dat save_space) (\<lambda>r. Ok (r, unused)))
                             (seq (complete_xfer unused) (\<lambda>_.
                                seq (write_put k dat False) (\<lambda>r. Ok (r, [])))))
                        (\<lambda>(r, unused1).
                           seq (index_set k r) (\<lambda>_.
                           seq (seg_setdefault (fst r)) (\<lambda>_.
                           seq (seg_add (fst r) 1) (\<lambda>_.
                           seq (seg_add segment (- 1)) (\<lambda>_. Ok unused1))))) st
                    else Ok unused st
                | _ \<Rightarrow> Raise TypeError st))
        else if tag = TAG_DELETE then
          (if (case index_transaction_id of None \<Rightarrow> True | Some t \<Rightarrow> segment > t) then
             (case key of
                Some k \<Rightarrow>
                  on_segment_full
                    (seq (write_delete k save_space) (\<lambda>_. Ok unused))
                    (seq (complete_xfer unused) (\<lambda>_.
                       seq (write_delete k False) (\<lambda>_. Ok []))) st
              | None \<Rightarrow> Raise TypeError st)
           else Ok unused st)
        else Ok unused st)"

fun compact_entries ::
  "bool \<Rightarrow> nat option \<Rightarrow> nat \<Rightarrow> entry list \<Rightarrow> nat list \<Rightarrow> repo \<Rightarrow> nat list res" where
  "compact_entries save_space itx segment [] unused st = Ok unused st"
| "compact_entries save_space itx segment (e # rest) unused st =
     seq (compact_entry save_space itx segment e unused)
         (\<lambda>unused1. compact_entries save_space itx segment rest unused1) st"

text \<open>
  The heuristic of the source compares with the floating point products
  \<^verbatim>\<open>0.2 * max_segment_size\<close> and \<^verbatim>\<open>0.15 * segment_size\<close>; here the comparison is exact.
\<close>

definition defer_segment :: "int \<Rightarrow> nat \<Rightarrow> int \<Rightarrow> bool" where
  "defer_segment max_size sz freeable_space =
     (5 * int sz > max_size \<and> 20 * freeable_space < 3 * int sz)"

fun compact_loop ::
  "bool \<Rightarrow> nat option \<Rightarrow> (nat \<times> int) list \<Rightarrow> nat list \<Rightarrow> repo \<Rightarrow> nat list res" where
  "compact_loop save_space itx [] unused st = Ok unused st"
| "compact_loop save_space itx ((segment, freeable_space) # rest) unused st =
     (if \<not> segment_exists segment st
      then seq (compact_del segment) (\<lambda>_. compact_loop save_space itx rest unused) st
      else
        seq (segment_size segment) (\<lambda>sz st1.
          if defer_segment (max_segment_size st1) sz freeable_space
          then compact_loop save_space itx rest unused st1
          else
            seq (seg_setdefault segment) (\<lambda>_ st2.
              case iter_objects segment True True st2 of
                (entries, err) \<Rightarrow>
                  seq (compact_entries save_space itx segment entries unused) (\<lambda>unused1 st3.
                    case err of
                      Some e \<Rightarrow> Raise e st3
                    | None \<Rightarrow>
                        seq (seg_get segment) (\<lambda>c st4.
                          if c \<noteq> 0 then Raise AssertionError st4
                          else compact_loop save_space itx rest (unused1 @ [segment]) st4) st3)
                    st2) st1) st)"

definition compact_segments :: "bool \<Rightarrow> repo \<Rightarrow> unit res" where
  "compact_segments save_space st =
     (case compact st of
        None \<Rightarrow> Raise AttributeError st
      | Some cp \<Rightarrow>
          if cp = [] then Ok () st
          else
            (case segments st of
               None \<Rightarrow> Raise AttributeError st
             | Some _ \<Rightarrow>
                 seq (compact_loop save_space (get_index_transaction_id st)
                        (sort_key fst cp) [])
                     (\<lambda>unused. complete_xfer unused) st))"

definition commit :: "bool \<Rightarrow> repo \<Rightarrow> unit res" where
  "commit save_space =
     seq write_commit (\<lambda>_ st.
       seq (if \<not> append_only st then compact_segments save_space else Ok ()) (\<lambda>_.
         seq write_index (\<lambda>_ st1. Ok () (rollback st1))) st)"

subsection \<open>Replay\<close>

text \<open>What \<^verbatim>\<open>check\<close> reports through \<^verbatim>\<open>report_error\<close>.\<close>

datatype msg =
    MsgError error | MsgUnexpectedTag byte nat | MsgAddCommit "nat option"
  | MsgCountMismatch nat nat | MsgIndexMismatch bytes

text \<open>
  One frame of \<^verbatim>\<open>_update_index\<close>. \<open>report\<close> tells whether a report callback was given;
  the result is the list of messages reported so far.
\<close>

definition update_entry :: "bool \<Rightarrow> nat \<Rightarrow> entry \<Rightarrow> msg list \<Rightarrow> repo \<Rightarrow> msg list res" where
  "update_entry report segment e msgs st =
     (case e of (tag, key, offset, p) \<Rightarrow>
        if tag = TAG_PUT then
          (case (index st, key) of
             (Some idx, Some k) \<Rightarrow>
               seq (payload_size p) (\<lambda>sz.
                 seq (case map_of idx k of
                        None \<Rightarrow> Ok ()
                      | Some (s, _) \<Rightarrow>
                          seq (compact_add s (int sz)) (\<lambda>_ st1.
                            case seg_add s (- 1) st1 of
                              Raise KeyError st2 \<Rightarrow> Ok () st2
                            | r \<Rightarrow> r))
                   (\<lambda>_. seq (index_set k (segment, offset)) (\<lambda>_.
                          seq (seg_add segment 1) (\<lambda>_. Ok msgs)))) st
           | _ \<Rightarrow> Raise TypeError st)
        else if tag = TAG_DELETE then
          (case (index st, key) of
             (None, _) \<Rightarrow> Raise AttributeError st
           | (Some idx, None) \<Rightarrow> Raise TypeError st
           | (Some idx, Some k) \<Rightarrow>
               (case map_of idx k of
                  None \<Rightarrow> Ok msgs st
                | Some (s, off) \<Rightarrow>
                    let st1 = st\<lparr>index := Some (AList.delete k idx)\<rparr> in
                    if segment_exists s st1 then
                      seq (seg_add s (- 1)) (\<lambda>_.
                        seq (io_read s off k False) (\<lambda>p1.
                          seq (payload_size p1) (\<lambda>sz.
                            seq (compact_add s (int sz)) (\<lambda>_. Ok msgs)))) st1
                    else Ok msgs st1))
        else if tag = TAG_COMMIT then Ok msgs st
        else if \<not> report then Raise CheckNeeded st
        else Ok (msgs @ [MsgUnexpectedTag tag segment]) st)"

fun update_entries :: "bool \<Rightarrow> nat \<Rightarrow> entry list \<Rightarrow> msg list \<Rightarrow> repo \<Rightarrow> msg list res" where
  "update_entries report segment [] msgs st = Ok msgs st"
| "update_entries report segment (e # rest) msgs st =
     seq (update_entry report segment e msgs)
         (\<lambda>msgs1. update_entries report segment rest msgs1) st"

text \<open>
  \<^verbatim>\<open>_update_index\<close> on the frames an iterator yields and the error that ends it, if any.
\<close>

definition update_index ::
  "nat \<Rightarrow> entry list \<times> error option \<Rightarrow> bool \<Rightarrow> msg list \<Rightarrow> repo \<Rightarrow> msg list res" where
  "update_index segment objects report msgs =
     seq (seg_set segment 0) (\<lambda>_.
       seq (update_entries report segment (fst objects) msgs) (\<lambda>msgs1 st.
         case snd objects of
           Some e \<Rightarrow> Raise e st
         | None \<Rightarrow>
             seq (seg_get segment) (\<lambda>c st1.
               if c = 0
               then seq (segment_size segment) (\<lambda>sz.
                      seq (compact_add segment (int sz)) (\<lambda>_. Ok msgs1)) st1
               else Ok msgs1 st1) st))"

fun sparse_entries :: "nat \<Rightarrow> entry list \<Rightarrow> repo \<Rightarrow> unit res" where
  "sparse_entries segment [] st = Ok () st"
| "sparse_entries segment ((tag, key, offset, p) # rest) st =
     (if tag = TAG_PUT then
        (case (index st, key) of
           (Some idx, Some k) \<Rightarrow>
             if map_of idx k \<noteq> Some (segment, offset)
             then seq (payload_size p) (\<lambda>sz.
                    seq (compact_add segment (int sz)) (\<lambda>_. sparse_entries segment rest)) st
             else sparse_entries segment rest st
         | (None, _) \<Rightarrow> Raise AttributeError st
         | _ \<Rightarrow> Raise TypeError st)
      else if tag = TAG_DELETE then
        seq (payload_size p) (\<lambda>sz.
          seq (compact_add segment (int sz)) (\<lambda>_. sparse_entries segment rest)) st
      else sparse_entries segment rest st)"

definition rebuild_sparse :: "nat \<Rightarrow> repo \<Rightarrow> unit res" where
  "rebuild_sparse segment st =
     (case compact st of
        None \<Rightarrow> Raise AttributeError st
      | Some cp \<Rightarrow>
          seq (seg_get segment) (\<lambda>c st1.
            if c = 0
            then seq (segment_size segment) (\<lambda>sz. compact_add segment (int sz)) st1
            else
              (case iter_objects segment False False st1 of
                 (entries, err) \<Rightarrow>
                   seq (sparse_entries segment entries) (\<lambda>_ st2.
                     case err of Some e \<Rightarrow> Raise e st2 | None \<Rightarrow> Ok () st2) st1))
            (st\<lparr>compact := Some (AList.update segment 0 cp)\<rparr>))"

fun rebuild_all :: "nat list \<Rightarrow> repo \<Rightarrow> unit res" where
  "rebuild_all [] st = Ok () st"
| "rebuild_all (segment # rest) st = seq (rebuild_sparse segment) (\<lambda>_. rebuild_all rest) st"

text \<open>The loop of \<^verbatim>\<open>replay_segments\<close> over the segments in order.\<close>

fun replay_loop :: "nat option \<Rightarrow> nat option \<Rightarrow> nat list \<Rightarrow> repo \<Rightarrow> unit res" where
  "replay_loop index_transaction_id segments_transaction_id [] st = Ok () st"
| "replay_loop index_transaction_id segments_transaction_id (segment # rest) st =
     (if (case index_transaction_id of None \<Rightarrow> False | Some i \<Rightarrow> segment \<le> i)
      then replay_loop index_transaction_id segments_transaction_id rest st
      else
        (case segments_transaction_id of
           None \<Rightarrow> Raise TypeError st
         | Some t \<Rightarrow>
             if segment > t then Ok () st
             else
               seq (update_index segment (iter_objects segment False True st) False [])
                   (\<lambda>_. replay_loop index_transaction_id segments_transaction_id rest) st))"

definition finally_rollback :: "(repo \<Rightarrow> 'a res) \<Rightarrow> repo \<Rightarrow> 'a res" where
  "finally_rollback m st =
     (case m st of
        Ok a st1 \<Rightarrow> Ok a (rollback st1)
      | Raise e st1 \<Rightarrow> Raise e (rollback st1)
      | OutOfFuel \<Rightarrow> OutOfFuel)"

definition index_falsy :: "nsindex option \<Rightarrow> bool" where
  "index_falsy i = (case i of None \<Rightarrow> True | Some idx \<Rightarrow> idx = [])"

definition gt_opt :: "nat option \<Rightarrow> nat option \<Rightarrow> bool" where
  "gt_opt a b = (case (a, b) of (Some x, Some y) \<Rightarrow> x > y | _ \<Rightarrow> False)"

subsection \<open>Opening a transaction and crash recovery\<close>

text \<open>
  \<^verbatim>\<open>check_transaction\<close>, \<^verbatim>\<open>replay_segments\<close>, \<^verbatim>\<open>prepare_txn\<close> and \<^verbatim>\<open>open_index\<close> call
  each other. Each body below takes the functions it calls as arguments; \<open>recovery\<close> ties
  them together, its argument bounding the depth of the calls.
\<close>

type_synonym check_fn = "repo \<Rightarrow> unit res"
type_synonym replay_fn = "nat option \<Rightarrow> nat option \<Rightarrow> repo \<Rightarrow> unit res"
type_synonym prepare_fn = "nat option \<Rightarrow> bool \<Rightarrow> repo \<Rightarrow> unit res"
type_synonym open_fn = "nat option \<Rightarrow> bool \<Rightarrow> repo \<Rightarrow> nsindex res"

definition check_transaction_body :: "replay_fn \<Rightarrow> repo \<Rightarrow> unit res" where
  "check_transaction_body replay_segments st =
     (let index_transaction_id = get_index_transaction_id st;
          segments_transaction_id = get_segments_transaction_id st
      in
      if index_transaction_id \<noteq> None \<and> segments_transaction_id = None
      then Raise CheckNeeded st
      else if index_transaction_id \<noteq> segments_transaction_id then
        (let replay_from =
               (if index_transaction_id \<noteq> None
                   \<and> gt_opt index_transaction_id segments_transaction_id
                then None else index_transaction_id)
         in replay_segments replay_from segments_transaction_id st)
      else Ok () st)"

definition replay_segments_body :: "prepare_fn \<Rightarrow> nat option \<Rightarrow> nat option \<Rightarrow> repo \<Rightarrow> unit res" where
  "replay_segments_body prepare_txn index_transaction_id segments_transaction_id =
     seq (prepare_txn index_transaction_id False) (\<lambda>_.
       finally_rollback
         (\<lambda>st1. seq (replay_loop index_transaction_id segments_transaction_id
                       (segment_iterator st1))
                  (\<lambda>_. write_index) st1))"

text \<open>The first part of \<^verbatim>\<open>prepare_txn\<close>: load the index unless one is in memory.\<close>

definition prepare_index :: "check_fn \<Rightarrow> open_fn \<Rightarrow> nat option \<Rightarrow> repo \<Rightarrow> unit res" where
  "prepare_index check_transaction open_index transaction_id st =
     (if index_falsy (index st) \<or> transaction_id = None then
        (case open_index transaction_id False st of
           Ok idx st1 \<Rightarrow> Ok () (st1\<lparr>index := Some idx\<rparr>)
         | Raise e st1 \<Rightarrow>
             if e = RuntimeError then
               seq check_transaction (\<lambda>_.
                 seq (open_index transaction_id False) (\<lambda>idx st2.
                   Ok () (st2\<lparr>index := Some idx\<rparr>))) st1
             else Raise e st1
         | OutOfFuel \<Rightarrow> OutOfFuel)
      else Ok () st)"

text \<open>The second part: the live counts and the free space, from the hints file.\<close>

definition prepare_hints :: "check_fn \<Rightarrow> prepare_fn \<Rightarrow> nat option \<Rightarrow> bool \<Rightarrow> repo \<Rightarrow> unit res" where
  "prepare_hints check_transaction prepare_txn transaction_id do_cleanup st =
     (case transaction_id of
        None \<Rightarrow> Ok () (st\<lparr>segments := Some [], compact := Some []\<rparr>)
      | Some t \<Rightarrow>
          let st1 = (if do_cleanup then cleanup t st else st);
              hints_path = ''hints.'' @ dec t;
              index_path = ''index.'' @ dec t
          in
          (case map_of (top st1) hints_path of
             Some (HintsFile (HintsV1 sg needs)) \<Rightarrow>
               rebuild_all (sort (remdups needs)) (st1\<lparr>segments := Some sg, compact := Some []\<rparr>)
           | Some (HintsFile (HintsV2 sg cp)) \<Rightarrow>
               Ok () (st1\<lparr>segments := Some sg, compact := Some cp\<rparr>)
           | Some (HintsFile (HintsOther v)) \<Rightarrow> Raise ValueError st1
           | other \<Rightarrow>
               let st2 = (if other = None then st1 else top_unlink hints_path st1) in
               if map_of (top st2) index_path = None then Raise FileNotFoundError st2
               else
                 seq check_transaction (\<lambda>_. prepare_txn transaction_id True)
                     (top_unlink index_path st2)))"

definition prepare_txn_body ::
  "check_fn \<Rightarrow> prepare_fn \<Rightarrow> open_fn \<Rightarrow> nat option \<Rightarrow> bool \<Rightarrow> repo \<Rightarrow> unit res" where
  "prepare_txn_body check_transaction prepare_txn open_index transaction_id do_cleanup st =
     (if \<not> lock_upgradable st then Raise LockError (st\<lparr>active_txn := False\<rparr>)
      else
        seq (prepare_index check_transaction open_index transaction_id)
            (\<lambda>_. prepare_hints check_transaction prepare_txn transaction_id do_cleanup)
            (st\<lparr>active_txn := True\<rparr>))"

definition get_transaction_id_of :: "check_fn \<Rightarrow> repo \<Rightarrow> nat option res" where
  "get_transaction_id_of check_transaction =
     seq check_transaction (\<lambda>_ st. Ok (get_index_transaction_id st) st)"

definition open_index_body ::
  "check_fn \<Rightarrow> prepare_fn \<Rightarrow> open_fn \<Rightarrow> nat option \<Rightarrow> bool \<Rightarrow> repo \<Rightarrow> nsindex res" where
  "open_index_body check_transaction prepare_txn open_index transaction_id auto_recover st =
     (case transaction_id of
        None \<Rightarrow> Ok [] st
      | Some t \<Rightarrow>
          let index_path = ''index.'' @ dec t in
          (case map_of (top st) index_path of
             Some (IndexFile idx) \<Rightarrow> Ok idx st
           | None \<Rightarrow> Raise InternalOSError st
           | Some _ \<Rightarrow>
               let st1 = top_unlink index_path st in
               if \<not> auto_recover then Raise RuntimeError st1
               else
                 seq (get_transaction_id_of check_transaction) (\<lambda>t1.
                   seq (prepare_txn t1 True) (\<lambda>_.
                     seq (commit False) (\<lambda>_.
                       seq (get_transaction_id_of check_transaction) (\<lambda>t2.
                         open_index t2 True)))) st1))"

primrec recovery :: "nat \<Rightarrow> check_fn \<times> replay_fn \<times> prepare_fn \<times> open_fn" where
  "recovery 0 = (\<lambda>st. OutOfFuel, \<lambda>i s st. OutOfFuel, \<lambda>t c st. OutOfFuel, \<lambda>t a st. OutOfFuel)"
| "recovery (Suc n) =
     (case recovery n of (chk, rep, prep, opn) \<Rightarrow>
        (check_transaction_body rep,
         replay_segments_body prep,
         prepare_txn_body chk prep opn,
         open_index_body chk prep opn))"

definition check_transaction :: "nat \<Rightarrow> repo \<Rightarrow> unit res" where
  "check_transaction n = fst (recovery n)"

definition replay_segments :: "nat \<Rightarrow> nat option \<Rightarrow> nat option \<Rightarrow> repo \<Rightarrow> unit res" where
  "replay_segments n = fst (snd (recovery n))"

definition prepare_txn :: "nat \<Rightarrow> nat option \<Rightarrow> bool \<Rightarrow> repo \<Rightarrow> unit res" where
  "prepare_txn n = fst (snd (snd (recovery n)))"

definition open_index :: "nat \<Rightarrow> nat option \<Rightarrow> bool \<Rightarrow> repo \<Rightarrow> nsindex res" where
  "open_index n = snd (snd (snd (recovery n)))"

definition get_transaction_id :: "nat \<Rightarrow> repo \<Rightarrow> nat option res" where
  "get_transaction_id n = get_transaction_id_of (check_transaction n)"

subsection \<open>The key-value interface\<close>

text \<open>\<^verbatim>\<open>put\<close> once the transaction is open: from the lookup of the key on.\<close>

definition put_txn :: "bytes \<Rightarrow> bytes \<Rightarrow> repo \<Rightarrow> unit res" where
  "put_txn key dat st =
     (case index st of
        None \<Rightarrow> Raise TypeError st
      | Some idx \<Rightarrow>
          seq (case map_of idx key of
                 None \<Rightarrow> Ok ()
               | Some (segment, offset) \<Rightarrow>
                   seq (seg_add segment (- 1)) (\<lambda>_.
                   seq (io_read segment offset key False) (\<lambda>p.
                   seq (payload_size p) (\<lambda>sz.
                   seq (compact_add segment (int sz)) (\<lambda>_.
                   seq (write_delete key False) (\<lambda>(segment1, sz1).
                   seq (compact_add segment1 (int sz1)) (\<lambda>_.
                   seg_setdefault segment1)))))))
            (\<lambda>_. seq (write_put key dat False) (\<lambda>(segment, offset).
                   seq (seg_setdefault segment) (\<lambda>_.
                   seq (seg_add segment 1) (\<lambda>_.
                   index_set key (segment, offset))))) st)"

definition begin_txn :: "nat \<Rightarrow> repo \<Rightarrow> unit res" where
  "begin_txn n st =
     (if \<not> active_txn st
      then seq (get_transaction_id n) (\<lambda>t. prepare_txn n t True) st
      else Ok () st)"

definition put :: "nat \<Rightarrow> bytes \<Rightarrow> bytes \<Rightarrow> repo \<Rightarrow> unit res" where
  "put n key dat = seq (begin_txn n) (\<lambda>_. put_txn key dat)"

definition delete_txn :: "bytes \<Rightarrow> repo \<Rightarrow> unit res" where
  "delete_txn key st =
     (case index st of
        None \<Rightarrow> Raise AttributeError st
      | Some idx \<Rightarrow>
          (case map_of idx key of
             None \<Rightarrow> Raise ObjectNotFound st
           | Some (segment, offset) \<Rightarrow>
               seq (seg_add segment (- 1)) (\<lambda>_.
               seq (io_read segment offset key False) (\<lambda>p.
               seq (payload_size p) (\<lambda>sz.
               seq (compact_add segment (int sz)) (\<lambda>_.
               seq (write_delete key False) (\<lambda>(segment1, sz1).
               seq (compact_add segment1 (int sz1)) (\<lambda>_.
               seg_setdefault segment1))))))
                 (st\<lparr>index := Some (AList.delete key idx)\<rparr>)))"

definition delete :: "nat \<Rightarrow> bytes \<Rightarrow> repo \<Rightarrow> unit res" where
  "delete n key = seq (begin_txn n) (\<lambda>_. delete_txn key)"

text \<open>The guard \<^verbatim>\<open>if not self.index\<close> of \<^verbatim>\<open>get\<close>, \<^verbatim>\<open>__len__\<close>, \<^verbatim>\<open>__contains__\<close> and \<^verbatim>\<open>list\<close>.\<close>

definition load_index :: "nat \<Rightarrow> repo \<Rightarrow> unit res" where
  "load_index n st =
     (if index_falsy (index st)
      then seq (get_transaction_id n) (\<lambda>t.
             seq (open_index n t True) (\<lambda>idx st1. Ok () (st1\<lparr>index := Some idx\<rparr>))) st
      else Ok () st)"

definition get :: "nat \<Rightarrow> bytes \<Rightarrow> repo \<Rightarrow> payload res" where
  "get n key =
     seq (load_index n) (\<lambda>_ st.
       case index st of
         None \<Rightarrow> Raise TypeError st
       | Some idx \<Rightarrow>
           (case map_of idx key of
              None \<Rightarrow> Raise ObjectNotFound st
            | Some (segment, offset) \<Rightarrow> io_read segment offset key True st))"

subsection \<open>check\<close>

fun is_integrity :: "error \<Rightarrow> bool" where
  "is_integrity (IntegrityError _ _ _) = True"
| "is_integrity _ = False"

text \<open>The body of the loop of \<^verbatim>\<open>check\<close> for one segment.\<close>

definition check_segment :: "bool \<Rightarrow> nat \<Rightarrow> msg list \<Rightarrow> repo \<Rightarrow> msg list res" where
  "check_segment repair segment msgs st =
     (case iter_objects segment False True st of
        (entries, None) \<Rightarrow> update_index segment (entries, None) True msgs st
      | (entries, Some e) \<Rightarrow>
          if is_integrity e then
            (if repair then
               seq (recover_segment segment) (\<lambda>_ st1.
                 case iter_objects segment False True st1 of
                   (entries1, None) \<Rightarrow>
                     update_index segment (entries1, None) True (msgs @ [MsgError e]) st1
                 | (entries1, Some e1) \<Rightarrow> Raise e1 st1) st
             else update_index segment ([], None) True (msgs @ [MsgError e]) st)
          else Raise e st)"

fun check_loop :: "bool \<Rightarrow> nat option \<Rightarrow> nat list \<Rightarrow> msg list \<Rightarrow> repo \<Rightarrow> msg list res" where
  "check_loop repair transaction_id [] msgs st = Ok msgs st"
| "check_loop repair transaction_id (segment # rest) msgs st =
     (case transaction_id of
        None \<Rightarrow> Raise TypeError st
      | Some t \<Rightarrow>
          if segment > t then check_loop repair transaction_id rest msgs st
          else seq (check_segment repair segment msgs)
                   (\<lambda>msgs1. check_loop repair transaction_id rest msgs1) st)"

definition index_len :: "nsindex \<Rightarrow> nat" where
  "index_len idx = length (remdups (map fst idx))"

text \<open>The comparison of the index found on disk with the index rebuilt from the segments.\<close>

definition compare_index :: "nsindex \<Rightarrow> nsindex \<Rightarrow> msg list" where
  "compare_index current_index idx =
     (if index_len current_index \<noteq> index_len idx
      then [MsgCountMismatch (index_len current_index) (index_len idx)]
      else map MsgIndexMismatch
             (filter (\<lambda>key. map_of current_index key \<noteq> map_of idx key) (remdups (map fst idx))))"

definition check :: "nat \<Rightarrow> bool \<Rightarrow> bool \<Rightarrow> repo \<Rightarrow> (bool \<times> msg list) res" where
  "check n repair save_space st =
     (if append_only st \<and> repair then Raise ValueError st
      else if active_txn st then Raise AssertionError st
      else
        seq (\<lambda>st0.
               case seq (get_transaction_id n) (\<lambda>t.
                      seq (open_index n t True) (\<lambda>idx. Ok (t, Some idx))) st0 of
                 Ok v st1 \<Rightarrow> Ok v st1
               | Raise e st1 \<Rightarrow> Ok (get_segments_transaction_id st1, None) st1
               | OutOfFuel \<Rightarrow> OutOfFuel)
          (\<lambda>(t0, current_index) st1.
             let t1 = (if t0 = None then get_index_transaction_id st1 else t0);
                 transaction_id = (if t1 = None then get_latest_segment st1 else t1)
             in
             seq (\<lambda>st2. if repair
                         then (case transaction_id of
                                 None \<Rightarrow> Raise TypeError st2
                               | Some t \<Rightarrow> Ok () (cleanup t st2))
                         else Ok () st2)
               (\<lambda>_ st2.
                  let segments_transaction_id = get_segments_transaction_id st2 in
                  seq (prepare_txn n None True) (\<lambda>_ st3.
                    seq (check_loop repair transaction_id (segment_iterator st3) [])
                      (\<lambda>msgs.
                         seq (\<lambda>st4.
                                if repair \<and> segments_transaction_id = None
                                then (case transaction_id of
                                        None \<Rightarrow> Raise TypeError st4
                                      | Some t \<Rightarrow>
                                          seq write_commit
                                            (\<lambda>_. Ok (msgs @ [MsgAddCommit transaction_id]))
                                            (st4\<lparr>io_segment := t + 1\<rparr>))
                                else Ok msgs st4)
                           (\<lambda>msgs1.
                              seq (\<lambda>st5.
                                     case current_index of
                                       Some ci \<Rightarrow>
                                         if ci \<noteq> [] \<and> \<not> repair then
                                           (case index st5 of
                                              None \<Rightarrow> Raise TypeError st5
                                            | Some idx \<Rightarrow> Ok (msgs1 @ compare_index ci idx) st5)
                                         else Ok msgs1 st5
                                     | None \<Rightarrow> Ok msgs1 st5)
                                (\<lambda>msgs2.
                                   seq (if repair
                                        then seq (compact_segments save_space) (\<lambda>_. write_index)
                                        else Ok ())
                                     (\<lambda>_ st6.
                                        Ok (msgs2 = [] \<or> repair, msgs2) (rollback st6)))))
                      st3) st2) st1) st)"

section \<open>Predicates and sample states of the statements\<close>

text \<open>
  The writer and the file system agree: the open handle is on the current segment, whose
  file starts with the magic and is as long as the write offset says.
\<close>

definition writer_ok :: "repo \<Rightarrow> bool" where
  "writer_ok st =
     (case io_write_fd st of
        None \<Rightarrow> True
      | Some fd \<Rightarrow>
          fd = io_segment st \<and>
          (case map_of (data st) fd of
             None \<Rightarrow> False
           | Some f \<Rightarrow> take MAGIC_LEN f = MAGIC \<and> length f = io_offset st))"

text \<open>
  A frame was appended at offset \<open>off\<close> of segment \<open>seg\<close>, in one piece, behind bytes that
  are the magic of a new segment or the former content of the current one, and no other
  segment changed.
\<close>

definition frame_written :: "repo \<Rightarrow> repo \<Rightarrow> nat \<Rightarrow> nat \<Rightarrow> bytes \<Rightarrow> bool" where
  "frame_written st st' seg off frame =
     (\<exists>pre. map_of (data st') seg = Some (pre @ frame)
          \<and> length pre = off
          \<and> take MAGIC_LEN pre = MAGIC
          \<and> (pre = MAGIC
               \<or> (int off \<le> io_limit st \<and> seg = io_segment st \<and> map_of (data st) seg = Some pre))
          \<and> (\<forall>s. s \<noteq> seg \<longrightarrow> map_of (data st') s = map_of (data st) s))"

text \<open>
  A repository just created and opened, with the given \<^verbatim>\<open>max_segment_size\<close> (the two files
  of \<^verbatim>\<open>create\<close> abbreviated to one byte each), and a key of 32 bytes.
\<close>

definition opened :: "int \<Rightarrow> repo" where
  "opened m =
     \<lparr>top = [(''README'', Raw [0x54]), (''config'', Raw [0x5B])], top_trace = [], utcnow = [],
      data = [], beforerecover = [], io_segment = 0, io_offset = 0, io_limit = m,
      io_write_fd = None, index = None, segments = None, compact = None,
      active_txn = False, append_only = False, max_segment_size = m,
      lock_upgradable = True\<rparr>"

definition K1 :: bytes where
  "K1 = replicate 32 0x4B"

text \<open>
  The byte walk of \<^verbatim>\<open>recover_segment\<close> as the specification words it, by position \<open>p\<close>
  in the original bytes: while at least a header remains, read the header at \<open>p\<close>; if the
  size lies between the header size and the number of remaining bytes and the CRC of the
  frame validates, emit the frame and advance by the size; otherwise advance by one byte.
\<close>

function spec_walk :: "bytes \<Rightarrow> nat \<Rightarrow> bytes" where
  "spec_walk d p =
     (let remaining = length d - p in
      if fmt_size HeaderFmt \<le> remaining then
        let crc = unpack_u32 (take 4 (drop p d));
            sz = unat (unpack_u32 (take 4 (drop (p + 4) d)))
        in
        if fmt_size HeaderFmt \<le> sz \<and> sz \<le> remaining
           \<and> crc32 (take (sz - 4) (drop (p + 4) d)) 0 = crc
        then take sz (drop p d) @ spec_walk d (p + sz)
        else spec_walk d (p + 1)
      else [])"
  by pat_completeness auto
termination
  by (relation "measure (\<lambda>(d, p). length d - p)") auto

declare spec_walk.simps [simp del]

text \<open>A segment file with one stray byte between the magic and a COMMIT frame.\<close>

definition damaged :: bytes where
  "damaged = MAGIC @ [0xFF] @ COMMIT"

text \<open>
  A frame as the three writers lay it out: CRC, size, tag, body; the CRC is that of
  everything behind it. A PUT has the key and the value as body, a DELETE the key, a
  COMMIT nothing.
\<close>

definition mk_frame :: "byte \<Rightarrow> bytes \<Rightarrow> bytes" where
  "mk_frame tag body =
     (let hdr = pack_u32 (of_nat (9 + length body)) @ [tag]
      in pack_u32 (crc32 body (crc32 hdr 0)) @ hdr @ body)"

text \<open>
  A segment file holding the given frames (tag and body), and what \<^verbatim>\<open>iter_objects\<close> yields
  for them when the first frame starts at \<open>offset\<close>.
\<close>

definition key_of :: "byte \<Rightarrow> bytes \<Rightarrow> bytes option" where
  "key_of tag body = (if tag = TAG_PUT \<or> tag = TAG_DELETE then Some (take 32 body) else None)"

definition data_of :: "byte \<Rightarrow> bytes \<Rightarrow> bytes" where
  "data_of tag body = (if tag = TAG_PUT \<or> tag = TAG_DELETE then drop 32 body else body)"

fun encode :: "(byte \<times> bytes) list \<Rightarrow> bytes" where
  "encode [] = []"
| "encode ((tag, body) # rest) = mk_frame tag body @ encode rest"

fun entries_of :: "bool \<Rightarrow> nat \<Rightarrow> (byte \<times> bytes) list \<Rightarrow> entry list" where
  "entries_of include_data offset [] = []"
| "entries_of include_data offset ((tag, body) # rest) =
     (tag, key_of tag body, offset,
      if include_data then Data (data_of tag body) else Size (9 + length body))
     # entries_of include_data (offset + (9 + length body)) rest"

definition valid_frame :: "byte \<times> bytes \<Rightarrow> bool" where
  "valid_frame fr =
     (9 + length (snd fr) \<le> MAX_OBJECT_SIZE
      \<and> (fst fr = TAG_PUT \<or> fst fr = TAG_DELETE \<or> fst fr = TAG_COMMIT))"

text \<open>
  The condition of the specification on a segment file: its last 9 bytes are the canonical
  COMMIT frame, and among the frames the iterator yields no frame other than a COMMIT comes
  after a COMMIT (\<open>commit_closed\<close>: from the first COMMIT on there are only COMMITs).
\<close>

definition commit_closed :: "byte list \<Rightarrow> bool" where
  "commit_closed tags =
     list_all (\<lambda>t. t = TAG_COMMIT) (dropWhile (\<lambda>t. t \<noteq> TAG_COMMIT) tags)"

definition frame_tags :: "bytes \<Rightarrow> nat \<Rightarrow> byte list" where
  "frame_tags f segment = map fst (fst (iter_objects_file f segment False True))"

definition ends_with_commit :: "bytes \<Rightarrow> bool" where
  "ends_with_commit f =
     (fmt_size HeaderFmt \<le> length f \<and> drop (length f - fmt_size HeaderFmt) f = COMMIT)"

definition claimed_committed :: "bytes \<Rightarrow> nat \<Rightarrow> bool" where
  "claimed_committed f segment = (ends_with_commit f \<and> commit_closed (frame_tags f segment))"

text \<open>
  Two segment files that end with the bytes of a COMMIT frame: a well-formed one whose only
  frame is a PUT with these bytes as the end of its value, and one with a wrong magic.
\<close>

definition put_of_commit :: bytes where
  "put_of_commit = MAGIC @ mk_frame TAG_PUT (K1 @ COMMIT)"

definition bad_magic :: bytes where
  "bad_magic = [0x58, 0x58, 0x58, 0x58, 0x58, 0x58, 0x58, 0x58] @ COMMIT"






section \<open>Properties\<close>

subsection \<open>Packing, CRC and the monad\<close>

lemma length_pack_u32 [simp]: "length (pack_u32 w) = 4"
  by (simp add: pack_u32_def)

lemma unpack_pack_u32 [simp]: "unpack_u32 (pack_u32 w) = w"
  unfolding pack_u32_def unpack_u32_def
  apply simp
  apply (rule bit_word_eqI)
  subgoal for n
    apply (cases "n < 8"; cases "n < 16"; cases "n < 24")
    apply (auto simp add: bit_simps)
    done
  done

lemma crc32_append: "crc32 (a @ b) v = crc32 b (crc32 a v)"
  by (simp add: crc32_def)

lemma crc_commit: "crc32 commit_hdr 0 = 0x253CF440"
  by (simp add: crc32_def crc_byte_def crc_shift_def commit_hdr_def pack_u32_def TAG_COMMIT_def)

lemma COMMIT_bytes: "COMMIT = [0x40, 0xF4, 0x3C, 0x25, 9, 0, 0, 0, 2]"
  by (simp add: COMMIT_def crc_commit) (simp add: commit_hdr_def pack_u32_def TAG_COMMIT_def)


lemma map_of_update_alist [simp]:
  "map_of (AList.update k v al) k' = (if k' = k then Some v else map_of al k')"
  by (simp add: update_conv')

lemma MAGIC_LEN_8 [simp]: "MAGIC_LEN = 8"
  by (simp add: MAGIC_LEN_def MAGIC_def)

lemma length_MAGIC [simp]: "length MAGIC = 8"
  by (simp add: MAGIC_def)

lemma get_write_fd_ok:
  assumes "writer_ok st" and "get_write_fd False raise_full st = Ok fd st1"
  shows "fd = io_segment st1 \<and> io_write_fd st1 = Some fd \<and> writer_ok st1
       \<and> io_limit st1 = io_limit st
       \<and> (\<exists>f. map_of (data st1) fd = Some f \<and> take MAGIC_LEN f = MAGIC \<and> length f = io_offset st1
              \<and> (f = MAGIC \<or> (int (io_offset st1) \<le> io_limit st \<and> fd = io_segment st
                               \<and> io_write_fd st = Some fd \<and> map_of (data st) fd = Some f)))
       \<and> (\<forall>s. s \<noteq> fd \<longrightarrow> map_of (data st1) s = map_of (data st) s)
       \<and> (io_segment st1 \<noteq> io_segment st \<longrightarrow> int (io_offset st) > io_limit st)"
  using assms
  by (auto simp: writer_ok_def get_write_fd_def open_write_fd_def close_segment_def
           split: if_splits option.splits)

lemma seq_Ok_iff:
  "seq m k st = Ok b st' \<longleftrightarrow> (\<exists>a s1. m st = Ok a s1 \<and> k a s1 = Ok b st')"
  by (cases "m st") (simp_all add: seq_def)

lemma fd_write_fields [simp]:
  "io_segment (fd_write fd bs st) = io_segment st"
  "io_offset (fd_write fd bs st) = io_offset st"
  "io_write_fd (fd_write fd bs st) = io_write_fd st"
  "io_limit (fd_write fd bs st) = io_limit st"
  by (simp_all add: fd_write_def split: option.splits)

lemma take_MAGIC_length: "take 8 f = MAGIC \<Longrightarrow> 8 \<le> length f"
  by (metis length_MAGIC length_take min.cobounded1 min.commute)

lemma fd_write_frame:
  assumes "writer_ok st" and g: "get_write_fd False raise_full st = Ok fd st1"
    and s: "st' = (fd_write fd frame st1)\<lparr>io_offset := io_offset st1 + length frame\<rparr>"
  shows "frame_written st st' (io_segment st1) (io_offset st1) frame
       \<and> (io_segment st1 \<noteq> io_segment st \<longrightarrow> int (io_offset st) > io_limit st)
       \<and> writer_ok st'"
proof -
  note k = get_write_fd_ok [OF assms(1) g]
  from k obtain f where f: "map_of (data st1) fd = Some f" "take MAGIC_LEN f = MAGIC"
     "length f = io_offset st1"
     "f = MAGIC \<or> (int (io_offset st1) \<le> io_limit st \<and> fd = io_segment st
                               \<and> io_write_fd st = Some fd \<and> map_of (data st) fd = Some f)"
    by blast
  from f(2) have l8: "8 \<le> length f" by (simp add: take_MAGIC_length)
  have d: "data st' = AList.update fd (f @ frame) (data st1)"
    and seg: "io_segment st' = io_segment st1" and fdo: "io_write_fd st' = io_write_fd st1"
    and off: "io_offset st' = io_offset st1 + length frame"
    using s f(1) by (simp_all add: fd_write_def)
  have fw: "frame_written st st' (io_segment st1) (io_offset st1) frame"
    unfolding frame_written_def
    apply (rule exI [of _ f])
    using k f d seg l8 by auto
  have w: "writer_ok st'"
    using k f d seg fdo off l8 by (simp add: writer_ok_def)
  from k seg have "io_segment st1 \<noteq> io_segment st \<longrightarrow> int (io_offset st) > io_limit st"
    by simp
  with fw w show ?thesis by blast
qed

lemma write_put_unfold:
  "write_put key dat raise_full st =
     (case get_write_fd False raise_full st of
        Ok fd st1 \<Rightarrow>
          (case header_no_crc_pack (length dat + 41) TAG_PUT of
             Inl e \<Rightarrow> Raise e st1
           | Inr hdr \<Rightarrow>
               Ok (io_segment st1, io_offset st1)
                  ((fd_write fd (put_frame hdr key dat) st1)
                     \<lparr>io_offset := io_offset st1 + (length dat + 41)\<rparr>))
      | Raise e s \<Rightarrow> Raise e s
      | OutOfFuel \<Rightarrow> OutOfFuel)"
  by (simp add: write_put_def seq_def Let_def split: res.splits sum.splits)

lemma write_delete_unfold:
  "write_delete key raise_full st =
     (case get_write_fd False raise_full st of
        Ok fd st1 \<Rightarrow>
          (case header_no_crc_pack 41 TAG_DELETE of
             Inl e \<Rightarrow> Raise e st1
           | Inr hdr \<Rightarrow>
               Ok (io_segment st1, 41)
                  ((fd_write fd (delete_frame hdr key) st1)\<lparr>io_offset := io_offset st1 + 41\<rparr>))
      | Raise e s \<Rightarrow> Raise e s
      | OutOfFuel \<Rightarrow> OutOfFuel)"
  by (simp add: write_delete_def seq_def Let_def split: res.splits sum.splits)

lemma header_no_crc_pack_length: "header_no_crc_pack n t = Inr hdr \<Longrightarrow> length hdr = 5"
  by (auto simp: header_no_crc_pack_def split: if_splits)

lemma write_put_frame:
  assumes "writer_ok st" and "length key = 32"
    and "write_put key dat raise_full st = Ok (seg, off) st'"
  shows "(\<exists>hdr. header_no_crc_pack (length dat + 41) TAG_PUT = Inr hdr
              \<and> frame_written st st' seg off (put_frame hdr key dat))
       \<and> (seg \<noteq> io_segment st \<longrightarrow> int (io_offset st) > io_limit st)
       \<and> writer_ok st'"
proof -
  obtain fd st1 where g: "get_write_fd False raise_full st = Ok fd st1"
    using assms(3) unfolding write_put_unfold
    by (cases "get_write_fd False raise_full st") simp_all
  obtain hdr where h: "header_no_crc_pack (length dat + 41) TAG_PUT = Inr hdr"
    using assms(3) g unfolding write_put_unfold
    by (cases "header_no_crc_pack (length dat + 41) TAG_PUT") simp_all
  have s0: "(fd_write fd (put_frame hdr key dat) st1)
                   \<lparr>io_offset := io_offset st1 + (length dat + 41)\<rparr> = st'"
           "io_segment st1 = seg" "io_offset st1 = off"
    using assms(3) g h unfolding write_put_unfold by auto
  note s = s0 [symmetric]
  have lf: "length (put_frame hdr key dat) = length dat + 41"
    using header_no_crc_pack_length [OF h] assms(2) by (simp add: put_frame_def)
  from fd_write_frame [OF assms(1) g, of st' "put_frame hdr key dat"] s lf h
  show ?thesis by auto
qed

lemma write_delete_frame:
  assumes "writer_ok st" and "length key = 32"
    and "write_delete key raise_full st = Ok (seg, sz) st'"
  shows "(\<exists>hdr. header_no_crc_pack 41 TAG_DELETE = Inr hdr
              \<and> frame_written st st' seg (io_offset st' - 41) (delete_frame hdr key))
       \<and> sz = 41
       \<and> (seg \<noteq> io_segment st \<longrightarrow> int (io_offset st) > io_limit st)
       \<and> writer_ok st'"
proof -
  obtain fd st1 where g: "get_write_fd False raise_full st = Ok fd st1"
    using assms(3) unfolding write_delete_unfold
    by (cases "get_write_fd False raise_full st") simp_all
  obtain hdr where h: "header_no_crc_pack 41 TAG_DELETE = Inr hdr"
    using assms(3) g unfolding write_delete_unfold
    by (cases "header_no_crc_pack 41 TAG_DELETE") simp_all
  have s0: "(fd_write fd (delete_frame hdr key) st1)\<lparr>io_offset := io_offset st1 + 41\<rparr> = st'"
           "io_segment st1 = seg" "41 = sz"
    using assms(3) g h unfolding write_delete_unfold by auto
  note s = s0 [symmetric]
  have lf: "length (delete_frame hdr key) = 41"
    using header_no_crc_pack_length [OF h] assms(2) by (simp add: delete_frame_def)
  from s have o: "io_offset st' - 41 = io_offset st1" by simp
  from fd_write_frame [OF assms(1) g, of st' "delete_frame hdr key"] s lf h o
  show ?thesis by auto
qed

lemma writer_ok_close [simp]: "writer_ok (close_segment st)"
  by (simp add: writer_ok_def close_segment_def split: option.splits)

lemma write_commit_frame:
  assumes "write_commit st = Ok () st'"
  shows "(\<exists>seg. map_of (data st') seg = Some (MAGIC @ COMMIT)
              \<and> (\<forall>s. s \<noteq> seg \<longrightarrow> map_of (data st') s = map_of (data st) s)
              \<and> seg = io_segment (close_segment st)
              \<and> io_segment st' = seg + 1)
       \<and> io_write_fd st' = None \<and> io_offset st' = 0"
  using assms
  by (auto simp: write_commit_def seq_def get_write_fd_def open_write_fd_def close_segment_def
       header_no_crc_pack_def fd_write_def COMMIT_def commit_hdr_def
       split: option.splits if_splits)

subsection \<open>Frames and segments\<close>

text \<open>
  C9. Frames are never split across segments, and a segment may exceed
  \<^verbatim>\<open>max_segment_size\<close>. With the writer in step with the file system and a key of 32 bytes:
  \<^verbatim>\<open>get_write_fd\<close> moves to a new segment only when the offset before the write is strictly
  above the limit; a PUT or DELETE frame is appended in one piece to one segment, behind
  bytes that are either the magic of a new segment or the former content of the current
  segment with its length at or below the limit (so the file ends at most one frame above
  the larger of limit and magic length); a COMMIT frame is the only frame of its segment;
  and no other segment file changes.
\<close>

theorem frames_never_split:
  assumes "writer_ok st" and "length key = 32"
  shows "(\<forall>raise_full fd st1. get_write_fd False raise_full st = Ok fd st1 \<longrightarrow>
            (io_segment st1 \<noteq> io_segment st \<longrightarrow> io_limit st < int (io_offset st)))
       \<and> (\<forall>dat raise_full seg off st'. write_put key dat raise_full st = Ok (seg, off) st' \<longrightarrow>
            (\<exists>hdr. header_no_crc_pack (length dat + 41) TAG_PUT = Inr hdr
                 \<and> frame_written st st' seg off (put_frame hdr key dat))
            \<and> (seg \<noteq> io_segment st \<longrightarrow> io_limit st < int (io_offset st)))
       \<and> (\<forall>raise_full seg sz st'. write_delete key raise_full st = Ok (seg, sz) st' \<longrightarrow>
            (\<exists>hdr. header_no_crc_pack 41 TAG_DELETE = Inr hdr
                 \<and> frame_written st st' seg (io_offset st' - 41) (delete_frame hdr key))
            \<and> (seg \<noteq> io_segment st \<longrightarrow> io_limit st < int (io_offset st)))
       \<and> (\<forall>st'. write_commit st = Ok () st' \<longrightarrow>
            (\<exists>seg. map_of (data st') seg = Some (MAGIC @ COMMIT)
                 \<and> (\<forall>s. s \<noteq> seg \<longrightarrow> map_of (data st') s = map_of (data st) s)))"
proof (intro conjI allI impI)
  fix raise_full fd st1
  assume "get_write_fd False raise_full st = Ok fd st1" "io_segment st1 \<noteq> io_segment st"
  with get_write_fd_ok [OF assms(1)] show "io_limit st < int (io_offset st)" by blast
next
  fix dat raise_full seg off st'
  assume w: "write_put key dat raise_full st = Ok (seg, off) st'"
  note r = write_put_frame [OF assms w]
  from r show "\<exists>hdr. header_no_crc_pack (length dat + 41) TAG_PUT = Inr hdr
                 \<and> frame_written st st' seg off (put_frame hdr key dat)" by blast
  assume "seg \<noteq> io_segment st"
  with r show "io_limit st < int (io_offset st)" by blast
next
  fix raise_full seg sz st'
  assume w: "write_delete key raise_full st = Ok (seg, sz) st'"
  note r = write_delete_frame [OF assms w]
  from r show "\<exists>hdr. header_no_crc_pack 41 TAG_DELETE = Inr hdr
                 \<and> frame_written st st' seg (io_offset st' - 41) (delete_frame hdr key)" by blast
  assume "seg \<noteq> io_segment st"
  with r show "io_limit st < int (io_offset st)" by blast
next
  fix st'
  assume "write_commit st = Ok () st'"
  from write_commit_frame [OF this]
  show "\<exists>seg. map_of (data st') seg = Some (MAGIC @ COMMIT)
                 \<and> (\<forall>s. s \<noteq> seg \<longrightarrow> map_of (data st') s = map_of (data st) s)" by blast
qed

text \<open>
  At a repository opened with \<^verbatim>\<open>max_segment_size = 10\<close> the first PUT of a one-byte value
  is written at offset 8, below the limit, and leaves segment 0 with 50 bytes.
\<close>

theorem frames_never_split_witness:
  "writer_ok (opened 10) \<and> length K1 = 32
   \<and> (\<exists>st' hdr. write_put K1 [1] False (opened 10) = Ok (0, 8) st'
          \<and> frame_written (opened 10) st' 0 8 (put_frame hdr K1 [1])
          \<and> int 8 \<le> io_limit (opened 10)
          \<and> io_limit (opened 10) < int (length (MAGIC @ put_frame hdr K1 [1])))"
proof -
  have w: "writer_ok (opened 10)" by (simp add: writer_ok_def opened_def)
  have k: "length K1 = 32" by (simp add: K1_def)
  have "\<exists>st'. write_put K1 [1] False (opened 10) = Ok (0, 8) st'"
    by (simp add: write_put_unfold get_write_fd_def open_write_fd_def opened_def
          header_no_crc_pack_def)
  then obtain st' where p: "write_put K1 [1] False (opened 10) = Ok (0, 8) st'" by blast
  from frames_never_split [OF w k] p obtain hdr where
    h: "header_no_crc_pack (length [1::byte] + 41) TAG_PUT = Inr hdr"
       "frame_written (opened 10) st' 0 8 (put_frame hdr K1 [1])"
    by blast
  from h(1) have "length hdr = 5" by (rule header_no_crc_pack_length)
  with k have "length (put_frame hdr K1 [1]) = 42" by (simp add: put_frame_def)
  then have "io_limit (opened 10) < int (length (MAGIC @ put_frame hdr K1 [1]))"
    by (simp add: opened_def)
  moreover have "int 8 \<le> io_limit (opened 10)" by (simp add: opened_def)
  ultimately show ?thesis using w k p h(2) by blast
qed

subsection \<open>Recovery of a damaged segment\<close>

lemma recover_walk_spec: "recover_walk (drop p d) = spec_walk d p"
proof (induction d p rule: spec_walk.induct)
  case (1 d p)
  show ?case
  proof (cases "fmt_size HeaderFmt \<le> length d - p")
    case False
    then show ?thesis
      by (subst recover_walk.simps, subst spec_walk.simps) (simp add: Let_def)
  next
    case True
    let ?crc = "unpack_u32 (take 4 (drop p d))"
    let ?sz = "unat (unpack_u32 (take 4 (drop (p + 4) d)))"
    have d4: "drop 4 (drop p d) = drop (p + 4) d" by (simp add: add.commute)
    show ?thesis
    proof (cases "fmt_size HeaderFmt \<le> ?sz \<and> ?sz \<le> length d - p
           \<and> crc32 (take (?sz - 4) (drop (p + 4) d)) 0 = ?crc")
      case good: True
      have ih: "recover_walk (drop (p + ?sz) d) = spec_walk d (p + ?sz)"
        using "1.IH"(1) [OF refl True refl refl] good by simp
      have dd: "drop ?sz (drop p d) = drop (p + ?sz) d" by (simp add: add.commute)
      show ?thesis
        apply (subst recover_walk.simps, subst spec_walk.simps)
        using True good ih by (simp add: Let_def ac_simps)
    next
      case bad: False
      have ih: "recover_walk (drop (p + 1) d) = spec_walk d (p + 1)"
        using "1.IH"(2) [OF refl True refl refl] bad by simp
      have dd: "drop (Suc 0) (drop p d) = drop (p + 1) d" by simp
      show ?thesis
        apply (subst recover_walk.simps, subst spec_walk.simps)
        using True bad ih by (simp add: Let_def ac_simps)
    qed
  qed
qed


text \<open>
  C8. \<^verbatim>\<open>recover_segment\<close> on an existing segment file returns, leaves the original bytes
  under the name \<^verbatim>\<open><name>.beforerecover\<close>, and rewrites the segment to the magic followed
  by exactly the frames that the byte walk of the specification selects from the original
  bytes (the walk starts at the first byte of the file, its magic included); no other
  segment changes.
\<close>

theorem recover_segment_walk:
  assumes "map_of (data st) segment = Some d"
  shows "\<exists>st'. recover_segment segment st = Ok () st'
            \<and> map_of (data st') segment = Some (MAGIC @ spec_walk d 0)
            \<and> map_of (beforerecover st') segment = Some d
            \<and> (\<forall>s. s \<noteq> segment \<longrightarrow> map_of (data st') s = map_of (data st) s)"
  using assms recover_walk_spec [of 0 d] by (simp add: recover_segment_def)

lemma spec_walk_damaged: "spec_walk damaged 0 = COMMIT"
  by (simp add: spec_walk.simps damaged_def COMMIT_bytes MAGIC_def unpack_u32_def Let_def
        crc32_def crc_byte_def crc_shift_def)

theorem recover_segment_walk_witness:
  "map_of (data ((opened 10)\<lparr>data := [(0, damaged)]\<rparr>)) 0 = Some damaged
   \<and> (\<exists>st'. recover_segment 0 ((opened 10)\<lparr>data := [(0, damaged)]\<rparr>) = Ok () st'
          \<and> map_of (data st') 0 = Some (MAGIC @ COMMIT)
          \<and> map_of (beforerecover st') 0 = Some damaged)"
proof -
  have m: "map_of (data ((opened 10)\<lparr>data := [(0, damaged)]\<rparr>)) 0 = Some damaged" by simp
  from recover_segment_walk [OF m] show ?thesis
    by (auto simp: spec_walk_damaged)
qed

subsection \<open>Decoding frames; committed segments\<close>

lemma header_no_crc_pack_Inr:
  "header_no_crc_pack n t = Inr hdr \<longleftrightarrow> n < 2 ^ 32 \<and> hdr = pack_u32 (of_nat n) @ [t]"
  by (auto simp: header_no_crc_pack_def)

lemma unat_of_nat_32: "n < 2 ^ 32 \<Longrightarrow> unat (of_nat n :: 32 word) = n"
  by (simp add: unat_of_nat)

lemma crc32_Nil [simp]: "crc32 [] v = v"
  by (simp add: crc32_def)

lemma length_frame [simp]: "length (mk_frame tag body) = 9 + length body"
  by (simp add: mk_frame_def Let_def)

lemma put_frame_frame:
  "header_no_crc_pack (length dat + 41) TAG_PUT = Inr hdr \<Longrightarrow> length key = 32 \<Longrightarrow>
   put_frame hdr key dat = mk_frame TAG_PUT (key @ dat)"
  by (simp add: header_no_crc_pack_Inr put_frame_def mk_frame_def Let_def crc32_append add.commute)

lemma delete_frame_frame:
  "header_no_crc_pack 41 TAG_DELETE = Inr hdr \<Longrightarrow> length key = 32 \<Longrightarrow>
   delete_frame hdr key = mk_frame TAG_DELETE key"
  by (simp add: header_no_crc_pack_Inr delete_frame_def mk_frame_def Let_def)

lemma COMMIT_frame: "COMMIT = mk_frame TAG_COMMIT []"
  by (simp add: COMMIT_def commit_hdr_def mk_frame_def Let_def)

text \<open>Reading a frame back through the 9-byte header, as \<^verbatim>\<open>iter_objects\<close> does.\<close>

lemma read_entry_frame:
  assumes f: "f = pre @ mk_frame tag body @ post"
    and off: "offset = length pre"
    and n: "9 + length body \<le> MAX_OBJECT_SIZE"
    and t: "tag \<in> set tags"
  shows "read_entry f HeaderFmt (take 9 (drop offset f)) segment offset tags True
         = Inr (9 + length body, tag,
                if tag = TAG_PUT \<or> tag = TAG_DELETE then Some (take 32 body) else None,
                Some (if tag = TAG_PUT \<or> tag = TAG_DELETE then drop 32 body else body))"
proof -
  define hdr where "hdr = pack_u32 (of_nat (9 + length body)) @ [tag]"
  define crc where "crc = crc32 body (crc32 hdr 0)"
  from n have n32: "9 + length body < 2 ^ 32" by (simp add: MAX_OBJECT_SIZE_def)
  have fr: "mk_frame tag body = (pack_u32 crc @ hdr) @ body"
    by (simp add: mk_frame_def crc_def hdr_def Let_def)
  have lh: "length (pack_u32 crc @ hdr) = 9" by (simp add: hdr_def)
  have header: "take 9 (drop offset f) = pack_u32 crc @ hdr"
    using lh by (simp add: f off fr)
  have c: "unpack_u32 (take 4 (pack_u32 crc @ hdr)) = crc" by simp
  have "take 4 (drop 4 (pack_u32 crc @ hdr)) = pack_u32 (of_nat (9 + length body))"
    unfolding hdr_def by (simp del: of_nat_add of_nat_numeral)
  then have s: "unat (unpack_u32 (take 4 (drop 4 (pack_u32 crc @ hdr)))) = 9 + length body"
    using n32 by (simp only: unpack_pack_u32 unat_of_nat_32)
  have tg: "(pack_u32 crc @ hdr) ! 8 = tag" by (simp add: hdr_def nth_append)
  have d4: "drop 4 (pack_u32 crc @ hdr) = hdr" by simp
  have bd: "take (9 + length body - 9) (drop (offset + 9) f) = body"
    using lh by (simp add: f off fr)
  have fl: "length f = offset + (9 + length body) + length post"
    using lh by (simp add: f off fr)
  show ?thesis
    unfolding read_entry_def header
    using c s tg d4 bd n t lh fl
    by (simp add: Let_def crc_def)
qed

text \<open>Reading a PUT frame back through the 41-byte header, as \<^verbatim>\<open>read\<close> does.\<close>

lemma read_entry_put:
  assumes f: "f = pre @ mk_frame TAG_PUT (key @ dat) @ post"
    and off: "offset = length pre"
    and k: "length key = 32"
    and n: "41 + length dat \<le> MAX_OBJECT_SIZE"
  shows "read_entry f PutHeaderFmt (take 41 (drop offset f)) segment offset [TAG_PUT] read_data
         = Inr (41 + length dat, TAG_PUT, Some key, if read_data then Some dat else None)"
proof -
  define hdr where "hdr = pack_u32 (of_nat (9 + length (key @ dat))) @ [TAG_PUT]"
  define crc where "crc = crc32 (key @ dat) (crc32 hdr 0)"
  from n have n32: "9 + length (key @ dat) < 2 ^ 32" by (simp add: MAX_OBJECT_SIZE_def k)
  define header where "header = pack_u32 crc @ hdr @ key"
  have fr: "mk_frame TAG_PUT (key @ dat) = header @ dat"
    by (simp add: mk_frame_def crc_def hdr_def header_def Let_def)
  have lh: "length header = 41" by (simp add: hdr_def header_def k)
  have hd: "take 41 (drop offset f) = header"
    using lh by (simp add: f off fr)
  have c: "unpack_u32 (take 4 header) = crc" by (simp add: header_def)
  have "take 4 (drop 4 header) = pack_u32 (of_nat (9 + length (key @ dat)))"
    unfolding hdr_def header_def by (simp del: of_nat_add of_nat_numeral length_append)
  then have "unat (unpack_u32 (take 4 (drop 4 header))) = 9 + length (key @ dat)"
    using n32 by (simp only: unpack_pack_u32 unat_of_nat_32)
  then have s: "unat (unpack_u32 (take 4 (drop 4 header))) = 41 + length dat"
    using k by simp
  have tg: "header ! 8 = TAG_PUT" by (simp add: hdr_def header_def nth_append)
  have d4: "drop 4 header = hdr @ key" by (simp add: header_def)
  have kk: "take 32 (drop 9 header) = key" by (simp add: hdr_def header_def k)
  have bd: "take (length dat) (drop (offset + 41) f) = dat"
    using lh by (simp add: f off fr)
  have fl: "length f = offset + (41 + length dat) + length post"
    using lh by (simp add: f off fr)
  have crcok: "crc32 dat (crc32 (drop 4 header) 0) = crc"
    by (simp add: crc_def crc32_append d4)
  show ?thesis
    unfolding read_entry_def hd
    using c s tg kk bd n lh fl crcok k
    by (simp add: Let_def)
qed

lemma frame_not_Nil [simp]: "mk_frame tag body \<noteq> []"
  using length_frame [of tag body] by (cases "mk_frame tag body") simp_all

lemma iter_loop_end: "length f \<le> offset \<Longrightarrow> iter_loop f seg inc rd offset = ([], None)"
  by (subst iter_loop.simps) simp

lemma iter_loop_encode:
  "list_all valid_frame frs \<Longrightarrow>
   iter_loop (pre @ encode frs) seg inc True (length pre) = (entries_of inc (length pre) frs, None)"
proof (induction frs arbitrary: pre)
  case Nil
  then show ?case by (simp add: iter_loop_end)
next
  case (Cons fr frs)
  obtain tag body where fr: "fr = (tag, body)" by (cases fr)
  from Cons.prems have r: "list_all valid_frame frs" and vf: "valid_frame (tag, body)"
    by (simp_all add: fr)
  from vf have v: "9 + length body \<le> MAX_OBJECT_SIZE"
    "tag \<in> set [TAG_PUT, TAG_DELETE, TAG_COMMIT]"
    by (auto simp: valid_frame_def)
  let ?f = "pre @ encode (fr # frs)"
  have f: "?f = pre @ mk_frame tag body @ encode frs" by (simp add: fr)
  have hne: "take (fmt_size HeaderFmt) (drop (length pre) ?f) \<noteq> []"
    by (simp add: fr)
  have rd: "read_entry ?f HeaderFmt (take 9 (drop (length pre) ?f)) seg (length pre)
              [TAG_PUT, TAG_DELETE, TAG_COMMIT] True
            = Inr (9 + length body, tag, key_of tag body, Some (data_of tag body))"
    using read_entry_frame [OF f refl v] by (simp add: key_of_def data_of_def)
  have ih: "iter_loop ?f seg inc True (length pre + (9 + length body))
            = (entries_of inc (length pre + (9 + length body)) frs, None)"
    using Cons.IH [OF r, of "pre @ mk_frame tag body"] by (simp add: fr)
  show ?case
    apply (subst iter_loop.simps)
    using hne rd ih by (simp add: Let_def fr)
qed

lemma iter_objects_file_encode:
  "list_all valid_frame frs \<Longrightarrow>
   iter_objects_file (MAGIC @ encode frs) seg inc True = (entries_of inc 8 frs, None)"
  using iter_loop_encode [of frs MAGIC seg inc] by (simp add: iter_objects_file_def)

lemma committed_scan_iff:
  "committed_scan seen es err \<longleftrightarrow>
     err = None \<and>
     (if seen then list_all (\<lambda>t. t = TAG_COMMIT) (map fst es)
      else TAG_COMMIT \<in> set (map fst es) \<and> commit_closed (map fst es))"
proof (induction es arbitrary: seen)
  case Nil
  then show ?case by (cases err) (simp_all add: commit_closed_def)
next
  case (Cons e es)
  obtain tag key offset p where e: "e = (tag, key, offset, p)" by (cases e)
  show ?case
    using Cons.IH [of True] Cons.IH [of seen]
    by (auto simp: e commit_closed_def)
qed

text \<open>
  C7 (amended). \<^verbatim>\<open>is_committed_segment\<close> returns true if and only if the last 9 bytes of
  the segment file equal the canonical COMMIT frame, the whole file decodes without an
  \<^verbatim>\<open>IntegrityError\<close>, at least one COMMIT frame is decoded, and no frame other than
  a COMMIT appears after a COMMIT frame.
\<close>

theorem is_committed_segment_iff:
  assumes "map_of (data st) segment = Some f"
  shows "is_committed_segment segment st =
         Ok (ends_with_commit f
             \<and> snd (iter_objects_file f segment False True) = None
             \<and> TAG_COMMIT \<in> set (frame_tags f segment)
             \<and> commit_closed (frame_tags f segment)) st"
  using assms committed_scan_iff [of False "fst (iter_objects_file f segment False True)"
           "snd (iter_objects_file f segment False True)"]
  by (auto simp: is_committed_segment_def is_committed_file_def ends_with_commit_def
        frame_tags_def split: prod.splits)

lemma length_COMMIT [simp]: "length COMMIT = 9"
  by (simp add: COMMIT_bytes)

lemma length_K1 [simp]: "length K1 = 32"
  by (simp add: K1_def)

lemma iter_put_of_commit:
  "iter_objects_file put_of_commit 0 False True = ([(TAG_PUT, Some K1, 8, Size 50)], None)"
  using iter_objects_file_encode [of "[(TAG_PUT, K1 @ COMMIT)]" 0 False]
  by (simp add: put_of_commit_def valid_frame_def MAX_OBJECT_SIZE_def key_of_def)

lemma iter_bad_magic:
  "iter_objects_file bad_magic 0 False True = ([], Some (IntegrityError InvalidMagic 0 0))"
  by (simp add: iter_objects_file_def bad_magic_def MAGIC_def)

text \<open>
  The claim as stated fails in both directions of the data: on the PUT that ends with the
  bytes of a COMMIT no COMMIT frame is decoded, on the file with the wrong magic the
  iteration raises; the source returns false on both, the stated condition holds on both.
\<close>

theorem is_committed_segment_counterexample:
  "\<not> (is_committed_file put_of_commit 0 \<longleftrightarrow> claimed_committed put_of_commit 0)
   \<and> \<not> (is_committed_file bad_magic 0 \<longleftrightarrow> claimed_committed bad_magic 0)"
proof -
  have a: "\<not> is_committed_file put_of_commit 0"
    by (simp add: is_committed_file_def iter_put_of_commit TAG_PUT_def TAG_COMMIT_def)
  have b: "claimed_committed put_of_commit 0"
    by (simp add: claimed_committed_def ends_with_commit_def frame_tags_def iter_put_of_commit
          commit_closed_def TAG_PUT_def TAG_COMMIT_def)
       (simp add: put_of_commit_def mk_frame_def Let_def)
  have c: "\<not> is_committed_file bad_magic 0"
    by (simp add: is_committed_file_def iter_bad_magic)
  have d: "claimed_committed bad_magic 0"
    by (simp add: claimed_committed_def ends_with_commit_def frame_tags_def iter_bad_magic
          commit_closed_def)
       (simp add: bad_magic_def)
  from a b c d show ?thesis by blast
qed

theorem is_committed_segment_iff_witness:
  "map_of (data ((opened 10)\<lparr>data := [(0, MAGIC @ COMMIT)]\<rparr>)) 0 = Some (MAGIC @ COMMIT)
   \<and> is_committed_segment 0 ((opened 10)\<lparr>data := [(0, MAGIC @ COMMIT)]\<rparr>)
       = Ok True ((opened 10)\<lparr>data := [(0, MAGIC @ COMMIT)]\<rparr>)"
proof -
  have m: "map_of (data ((opened 10)\<lparr>data := [(0, MAGIC @ COMMIT)]\<rparr>)) 0 = Some (MAGIC @ COMMIT)"
    by simp
  have i: "iter_objects_file (MAGIC @ COMMIT) 0 False True = ([(TAG_COMMIT, None, 8, Size 9)], None)"
    using iter_objects_file_encode [of "[(TAG_COMMIT, [])]" 0 False]
    by (simp add: valid_frame_def MAX_OBJECT_SIZE_def key_of_def COMMIT_frame
          TAG_COMMIT_def TAG_PUT_def TAG_DELETE_def)
  show ?thesis
    using is_committed_segment_iff [OF m]
    by (simp add: i ends_with_commit_def frame_tags_def commit_closed_def)
qed

subsection \<open>Crash recovery on open\<close>












lemma recovery_0 [simp]:
  "check_transaction 0 st = OutOfFuel"
  "replay_segments 0 i t st = OutOfFuel"
  "prepare_txn 0 tid c st = OutOfFuel"
  "open_index 0 tid a st = OutOfFuel"
  by (simp_all add: check_transaction_def replay_segments_def prepare_txn_def open_index_def)











end
